theory Spec2Isabelle
  imports "HOL-Library.Word"
begin

unbundle bit_operations_syntax

section \<open>Machine types\<close>

text \<open>
  The receiver sketch (\<^verbatim>\<open>car/car.ino\<close>) is built for the ESP8266 (Wemos D1 mini), a
  little-endian 32-bit target: \<^verbatim>\<open>uint8_t\<close> is an 8-bit word, \<^verbatim>\<open>uint32_t\<close> and
  \<^verbatim>\<open>unsigned long\<close> are 32-bit words whose arithmetic wraps around.
\<close>

type_synonym byte = "8 word"
type_synonym u32 = "32 word"

text \<open>Reading and writing a \<^verbatim>\<open>uint32_t\<close> in memory (\<^verbatim>\<open>memcpy\<close>, pointer casts):
  least significant byte first.\<close>

definition le_bytes :: "u32 \<Rightarrow> byte list" where
  "le_bytes w = map (\<lambda>i. ucast (drop_bit (8 * i) w)) [0..<4]"

definition le32 :: "byte list \<Rightarrow> u32" where
  "le32 bs = foldr (\<lambda>b acc. ucast b OR push_bit 8 acc) bs 0"

text \<open>Most significant byte first; used by the hash function and by the specification of
  the time code.\<close>

definition be_bytes :: "nat \<Rightarrow> 'a::len word \<Rightarrow> byte list" where
  "be_bytes n w = map (\<lambda>i. ucast (drop_bit (8 * (n - 1 - i)) w)) [0..<n]"

definition be32 :: "byte list \<Rightarrow> u32" where
  "be32 bs = foldl (\<lambda>acc b. push_bit 8 acc OR ucast b) 0 bs"

fun chunks :: "nat \<Rightarrow> nat \<Rightarrow> 'a list \<Rightarrow> 'a list list" where
  "chunks 0 k xs = []"
| "chunks (Suc n) k xs = take k xs # chunks n k (drop k xs)"

section \<open>The cryptographic library\<close>

text \<open>
  The sketch links the Arduino Crypto library (\<^verbatim>\<open>AES.h\<close>, \<^verbatim>\<open>SHA256.h\<close>); its classes
  \<^verbatim>\<open>AES128\<close> and \<^verbatim>\<open>SHA256\<close> are not part of the repository. They are modelled by what
  they compute: the AES-128 block encryption of FIPS 197 and HMAC (RFC 2104) over SHA-256
  (FIPS 180-4), on byte lists.
\<close>

subsection \<open>AES-128: \<^verbatim>\<open>aes.setKey\<close> and \<^verbatim>\<open>aes.encryptBlock\<close>\<close>

definition sbox :: "byte list" where
  "sbox =
    [0x63, 0x7c, 0x77, 0x7b, 0xf2, 0x6b, 0x6f, 0xc5, 0x30, 0x01, 0x67, 0x2b, 0xfe, 0xd7, 0xab, 0x76,
     0xca, 0x82, 0xc9, 0x7d, 0xfa, 0x59, 0x47, 0xf0, 0xad, 0xd4, 0xa2, 0xaf, 0x9c, 0xa4, 0x72, 0xc0,
     0xb7, 0xfd, 0x93, 0x26, 0x36, 0x3f, 0xf7, 0xcc, 0x34, 0xa5, 0xe5, 0xf1, 0x71, 0xd8, 0x31, 0x15,
     0x04, 0xc7, 0x23, 0xc3, 0x18, 0x96, 0x05, 0x9a, 0x07, 0x12, 0x80, 0xe2, 0xeb, 0x27, 0xb2, 0x75,
     0x09, 0x83, 0x2c, 0x1a, 0x1b, 0x6e, 0x5a, 0xa0, 0x52, 0x3b, 0xd6, 0xb3, 0x29, 0xe3, 0x2f, 0x84,
     0x53, 0xd1, 0x00, 0xed, 0x20, 0xfc, 0xb1, 0x5b, 0x6a, 0xcb, 0xbe, 0x39, 0x4a, 0x4c, 0x58, 0xcf,
     0xd0, 0xef, 0xaa, 0xfb, 0x43, 0x4d, 0x33, 0x85, 0x45, 0xf9, 0x02, 0x7f, 0x50, 0x3c, 0x9f, 0xa8,
     0x51, 0xa3, 0x40, 0x8f, 0x92, 0x9d, 0x38, 0xf5, 0xbc, 0xb6, 0xda, 0x21, 0x10, 0xff, 0xf3, 0xd2,
     0xcd, 0x0c, 0x13, 0xec, 0x5f, 0x97, 0x44, 0x17, 0xc4, 0xa7, 0x7e, 0x3d, 0x64, 0x5d, 0x19, 0x73,
     0x60, 0x81, 0x4f, 0xdc, 0x22, 0x2a, 0x90, 0x88, 0x46, 0xee, 0xb8, 0x14, 0xde, 0x5e, 0x0b, 0xdb,
     0xe0, 0x32, 0x3a, 0x0a, 0x49, 0x06, 0x24, 0x5c, 0xc2, 0xd3, 0xac, 0x62, 0x91, 0x95, 0xe4, 0x79,
     0xe7, 0xc8, 0x37, 0x6d, 0x8d, 0xd5, 0x4e, 0xa9, 0x6c, 0x56, 0xf4, 0xea, 0x65, 0x7a, 0xae, 0x08,
     0xba, 0x78, 0x25, 0x2e, 0x1c, 0xa6, 0xb4, 0xc6, 0xe8, 0xdd, 0x74, 0x1f, 0x4b, 0xbd, 0x8b, 0x8a,
     0x70, 0x3e, 0xb5, 0x66, 0x48, 0x03, 0xf6, 0x0e, 0x61, 0x35, 0x57, 0xb9, 0x86, 0xc1, 0x1d, 0x9e,
     0xe1, 0xf8, 0x98, 0x11, 0x69, 0xd9, 0x8e, 0x94, 0x9b, 0x1e, 0x87, 0xe9, 0xce, 0x55, 0x28, 0xdf,
     0x8c, 0xa1, 0x89, 0x0d, 0xbf, 0xe6, 0x42, 0x68, 0x41, 0x99, 0x2d, 0x0f, 0xb0, 0x54, 0xbb, 0x16]"

definition subByte :: "byte \<Rightarrow> byte" where
  "subByte x = sbox ! unat x"

definition xtime :: "byte \<Rightarrow> byte" where
  "xtime x = (if bit x 7 then push_bit 1 x XOR 0x1b else push_bit 1 x)"

fun mixColumn :: "byte list \<Rightarrow> byte list" where
  "mixColumn [a, b, c, d] =
     [xtime a XOR (xtime b XOR b) XOR c XOR d,
      a XOR xtime b XOR (xtime c XOR c) XOR d,
      a XOR b XOR xtime c XOR (xtime d XOR d),
      (xtime a XOR a) XOR b XOR c XOR xtime d]"
| "mixColumn xs = xs"

definition mixColumns :: "byte list \<Rightarrow> byte list" where
  "mixColumns s = concat (map mixColumn (chunks 4 4 s))"

definition shiftRows :: "byte list \<Rightarrow> byte list" where
  "shiftRows s = map (\<lambda>i. s ! i) [0, 5, 10, 15, 4, 9, 14, 3, 8, 13, 2, 7, 12, 1, 6, 11]"

definition addRoundKey :: "byte list \<Rightarrow> byte list \<Rightarrow> byte list" where
  "addRoundKey s k = map2 (XOR) s k"

definition rcon :: "byte list" where
  "rcon = [0x01, 0x02, 0x04, 0x08, 0x10, 0x20, 0x40, 0x80, 0x1b, 0x36]"

definition nextRoundKey :: "byte \<Rightarrow> byte list \<Rightarrow> byte list" where
  "nextRoundKey rc k =
     (let w0 = map2 (XOR) (take 4 k)
                 [subByte (k ! 13) XOR rc, subByte (k ! 14), subByte (k ! 15), subByte (k ! 12)];
          w1 = map2 (XOR) (take 4 (drop 4 k)) w0;
          w2 = map2 (XOR) (take 4 (drop 8 k)) w1;
          w3 = map2 (XOR) (drop 12 k) w2
      in w0 @ w1 @ w2 @ w3)"

fun keySchedule :: "byte list \<Rightarrow> byte list \<Rightarrow> byte list list" where
  "keySchedule k [] = [k]"
| "keySchedule k (rc # rcs) = k # keySchedule (nextRoundKey rc k) rcs"

fun rounds :: "byte list list \<Rightarrow> byte list \<Rightarrow> byte list" where
  "rounds [] s = s"
| "rounds [k] s = addRoundKey (shiftRows (map subByte s)) k"
| "rounds (k # ks) s = rounds ks (addRoundKey (mixColumns (shiftRows (map subByte s))) k)"

definition encryptBlock :: "byte list \<Rightarrow> byte list \<Rightarrow> byte list" where
  "encryptBlock key input =
     (case keySchedule key rcon of
        [] \<Rightarrow> input
      | k # ks \<Rightarrow> rounds ks (addRoundKey input k))"

subsection \<open>HMAC-SHA-256: \<^verbatim>\<open>resetHMAC\<close>, \<^verbatim>\<open>update\<close>, \<^verbatim>\<open>finalizeHMAC\<close>\<close>

definition rotr :: "nat \<Rightarrow> u32 \<Rightarrow> u32" where
  "rotr n x = drop_bit n x OR push_bit (32 - n) x"

definition Ch :: "u32 \<Rightarrow> u32 \<Rightarrow> u32 \<Rightarrow> u32" where
  "Ch x y z = (x AND y) XOR (NOT x AND z)"

definition Maj :: "u32 \<Rightarrow> u32 \<Rightarrow> u32 \<Rightarrow> u32" where
  "Maj x y z = (x AND y) XOR (x AND z) XOR (y AND z)"

definition bsig0 :: "u32 \<Rightarrow> u32" where
  "bsig0 x = rotr 2 x XOR rotr 13 x XOR rotr 22 x"

definition bsig1 :: "u32 \<Rightarrow> u32" where
  "bsig1 x = rotr 6 x XOR rotr 11 x XOR rotr 25 x"

definition ssig0 :: "u32 \<Rightarrow> u32" where
  "ssig0 x = rotr 7 x XOR rotr 18 x XOR drop_bit 3 x"

definition ssig1 :: "u32 \<Rightarrow> u32" where
  "ssig1 x = rotr 17 x XOR rotr 19 x XOR drop_bit 10 x"

definition sha256_k :: "u32 list" where
  "sha256_k =
    [0x428A2F98, 0x71374491, 0xB5C0FBCF, 0xE9B5DBA5, 0x3956C25B, 0x59F111F1, 0x923F82A4, 0xAB1C5ED5,
     0xD807AA98, 0x12835B01, 0x243185BE, 0x550C7DC3, 0x72BE5D74, 0x80DEB1FE, 0x9BDC06A7, 0xC19BF174,
     0xE49B69C1, 0xEFBE4786, 0x0FC19DC6, 0x240CA1CC, 0x2DE92C6F, 0x4A7484AA, 0x5CB0A9DC, 0x76F988DA,
     0x983E5152, 0xA831C66D, 0xB00327C8, 0xBF597FC7, 0xC6E00BF3, 0xD5A79147, 0x06CA6351, 0x14292967,
     0x27B70A85, 0x2E1B2138, 0x4D2C6DFC, 0x53380D13, 0x650A7354, 0x766A0ABB, 0x81C2C92E, 0x92722C85,
     0xA2BFE8A1, 0xA81A664B, 0xC24B8B70, 0xC76C51A3, 0xD192E819, 0xD6990624, 0xF40E3585, 0x106AA070,
     0x19A4C116, 0x1E376C08, 0x2748774C, 0x34B0BCB5, 0x391C0CB3, 0x4ED8AA4A, 0x5B9CCA4F, 0x682E6FF3,
     0x748F82EE, 0x78A5636F, 0x84C87814, 0x8CC70208, 0x90BEFFFA, 0xA4506CEB, 0xBEF9A3F7, 0xC67178F2]"

definition sha256_h0 :: "u32 list" where
  "sha256_h0 = [0x6A09E667, 0xBB67AE85, 0x3C6EF372, 0xA54FF53A,
                0x510E527F, 0x9B05688C, 0x1F83D9AB, 0x5BE0CD19]"

text \<open>The message schedule: the window of the last 16 words is extended 48 times.\<close>

fun schedule :: "nat \<Rightarrow> u32 list \<Rightarrow> u32 list" where
  "schedule 0 w = []"
| "schedule (Suc n) w =
     (let x = ssig1 (w ! 14) + w ! 9 + ssig0 (w ! 1) + w ! 0
      in x # schedule n (tl w @ [x]))"

fun sha_round :: "u32 list \<Rightarrow> u32 \<times> u32 \<Rightarrow> u32 list" where
  "sha_round [a, b, c, d, e, f, g, h] (k, w) =
     (let t1 = h + bsig1 e + Ch e f g + k + w;
          t2 = bsig0 a + Maj a b c
      in [t1 + t2, a, b, c, d + t1, e, f, g])"
| "sha_round st kw = st"

definition compress :: "u32 list \<Rightarrow> byte list \<Rightarrow> u32 list" where
  "compress hs block =
     (let w16 = map be32 (chunks 16 4 block);
          w = w16 @ schedule 48 w16
      in map2 (+) hs (foldl sha_round hs (zip sha256_k w)))"

definition sha_pad :: "byte list \<Rightarrow> byte list" where
  "sha_pad m = m @ [0x80] @ replicate ((119 - length m mod 64) mod 64) 0
                 @ be_bytes 8 (of_nat (8 * length m) :: 64 word)"

definition sha256 :: "byte list \<Rightarrow> byte list" where
  "sha256 m =
     (let p = sha_pad m
      in concat (map (be_bytes 4) (foldl compress sha256_h0 (chunks (length p div 64) 64 p))))"

definition hmac_sha256 :: "byte list \<Rightarrow> byte list \<Rightarrow> byte list" where
  "hmac_sha256 key m =
     (let k0 = (if length key > 64 then sha256 key else key);
          kb = k0 @ replicate (64 - length k0) 0
      in sha256 (map (\<lambda>b. b XOR 0x5c) kb @ sha256 (map (\<lambda>b. b XOR 0x36) kb @ m)))"

section \<open>Configuration (\<^verbatim>\<open>car.ino\<close>, lines 9-36)\<close>

definition ACTION_UNLOCK :: byte where "ACTION_UNLOCK = 0"
definition ACTION_LOCK :: byte where "ACTION_LOCK = 1"

definition EEPROM_SAVE_INTERVAL :: u32 where "EEPROM_SAVE_INTERVAL = 10"
definition ROLLING_WINDOW :: nat where "ROLLING_WINDOW = 256"

definition CAR_ID :: u32 where "CAR_ID = 0xCAFEBABE"
definition KEYFOB_ID :: u32 where "KEYFOB_ID = 0x12345678"

definition ROLLING_KEY :: "byte list" where
  "ROLLING_KEY = [0x12, 0x34, 0x56, 0x78, 0x9A, 0xBC, 0xDE, 0xF0,
                  0x11, 0x22, 0x33, 0x44, 0x55, 0x66, 0x77, 0x88]"

definition TOTP_SECRET :: "byte list" where
  "TOTP_SECRET = [0xAB, 0xCD, 0xEF, 0x01, 0x23, 0x45, 0x67, 0x89,
                  0xAA, 0xBB, 0xCC, 0xDD, 0xEE, 0xFF, 0x12, 0x34,
                  0x56, 0x78, 0x9A, 0xBC, 0xDE, 0xAD, 0xBE, 0xEF,
                  0x00, 0x11, 0x22, 0x33, 0x44, 0x55, 0x66, 0x77]"

section \<open>The packet and its layout in memory\<close>

record Packet =
  carID :: u32
  keyfobID :: u32
  action :: byte
  rollingCode :: u32
  totp :: u32

text \<open>
  \<^verbatim>\<open>struct Packet\<close> carries no packing attribute, so the compiler lays it out with the
  natural alignment of the target: every member starts at the next multiple of its
  alignment and the struct is padded to a multiple of its strictest alignment.
\<close>

datatype ctype = U8 | U32

fun sizeof_ctype :: "ctype \<Rightarrow> nat" where
  "sizeof_ctype U8 = 1"
| "sizeof_ctype U32 = 4"

fun alignof_ctype :: "ctype \<Rightarrow> nat" where
  "alignof_ctype U8 = 1"
| "alignof_ctype U32 = 4"

definition align_up :: "nat \<Rightarrow> nat \<Rightarrow> nat" where
  "align_up a n = ((n + a - 1) div a) * a"

fun member_offsets :: "nat \<Rightarrow> ctype list \<Rightarrow> nat list" where
  "member_offsets pos [] = []"
| "member_offsets pos (t # ts) =
     (let off = align_up (alignof_ctype t) pos
      in off # member_offsets (off + sizeof_ctype t) ts)"

fun struct_end :: "nat \<Rightarrow> ctype list \<Rightarrow> nat" where
  "struct_end pos [] = pos"
| "struct_end pos (t # ts) = struct_end (align_up (alignof_ctype t) pos + sizeof_ctype t) ts"

definition sizeof_struct :: "ctype list \<Rightarrow> nat" where
  "sizeof_struct ts = align_up (foldr max (map alignof_ctype ts) 1) (struct_end 0 ts)"

definition Packet_members :: "ctype list" where
  "Packet_members = [U32, U32, U8, U32, U32]"

definition sizeof_Packet :: nat where
  "sizeof_Packet = sizeof_struct Packet_members"

text \<open>\<^verbatim>\<open>memcpy(&pkt, rxBuffer, sizeof(Packet))\<close>: the members are read where the layout
  puts them.\<close>

definition parsePacket :: "byte list \<Rightarrow> Packet" where
  "parsePacket buf =
     (let offs = member_offsets 0 Packet_members
      in \<lparr>carID = le32 (take 4 (drop (offs ! 0) buf)),
          keyfobID = le32 (take 4 (drop (offs ! 1) buf)),
          action = buf ! (offs ! 2),
          rollingCode = le32 (take 4 (drop (offs ! 3) buf)),
          totp = le32 (take 4 (drop (offs ! 4) buf))\<rparr>)"

section \<open>The state of the receiver\<close>

text \<open>
  The globals \<^verbatim>\<open>lastRollingCounter\<close> and \<^verbatim>\<open>lastSavedCounter\<close>, the EEPROM cell at
  \<^verbatim>\<open>EEPROM_ADDR\<close> with the number of \<^verbatim>\<open>EEPROM.put\<close>/\<^verbatim>\<open>EEPROM.commit\<close> pairs
  executed, the payloads handed to \<^verbatim>\<open>SendData\<close>, the lock output driven by
  \<^verbatim>\<open>lockCar\<close>/\<^verbatim>\<open>unlockCar\<close>, and the number of calls made to the global \<^verbatim>\<open>aes\<close> and
  \<^verbatim>\<open>sha256\<close> objects (one per \<^verbatim>\<open>generateRollingCode\<close>, one per \<^verbatim>\<open>generateTOTP\<close>).
  Serial output, watchdog feeding, delays and the radio's receive/transmit mode are not
  modelled.
\<close>

record state =
  lastRollingCounter :: u32
  lastSavedCounter :: u32
  eeprom :: u32
  eepromCommits :: nat
  txLog :: "u32 list"
  locked :: bool
  aesCalls :: nat
  hmacCalls :: nat

section \<open>Code generators (\<^verbatim>\<open>car.ino\<close>, lines 84-126)\<close>

definition generateRollingCode :: "u32 \<Rightarrow> u32" where
  "generateRollingCode counter =
     (let input = le_bytes counter @ replicate 12 0;
          out = encryptBlock ROLLING_KEY input
      in le32 (take 4 out))"

text \<open>The loop \<^verbatim>\<open>for (int i = 7; i >= 0; i--) { msg[i] = epoch & 0xFF; epoch >>= 8; }\<close>;
  the first argument is \<^verbatim>\<open>i + 1\<close>.\<close>

fun fillMsg :: "nat \<Rightarrow> u32 \<Rightarrow> byte list \<Rightarrow> byte list" where
  "fillMsg 0 epoch msg = msg"
| "fillMsg (Suc i) epoch msg = fillMsg i (drop_bit 8 epoch) (msg[i := ucast (epoch AND 0xFF)])"

definition generateTOTP :: "u32 \<Rightarrow> u32" where
  "generateTOTP epoch =
     (let msg = fillMsg 8 epoch (replicate 8 0);
          hash = hmac_sha256 TOTP_SECRET msg;
          offset = unat (hash ! 31 AND 0x0F);
          binary = push_bit 24 (ucast (hash ! offset AND 0x7F))
                   OR push_bit 16 (ucast (hash ! (offset + 1) AND 0xFF))
                   OR push_bit 8 (ucast (hash ! (offset + 2) AND 0xFF))
                   OR ucast (hash ! (offset + 3) AND 0xFF)
      in binary mod 1000000)"

section \<open>Validation (\<^verbatim>\<open>car.ino\<close>, lines 129-216)\<close>

text \<open>One constructor for each \<^verbatim>\<open>return\<close> of \<^verbatim>\<open>validatePacket\<close>, named after the line it
  prints; \<open>valid\<close> is the \<^verbatim>\<open>bool\<close> returned there.\<close>

datatype verdict =
    InvalidID
  | TotpValidCurrent
  | TotpValidPrevious
  | TotpMismatch
  | NotInWindow

fun valid :: "verdict \<Rightarrow> bool" where
  "valid TotpValidCurrent = True"
| "valid TotpValidPrevious = True"
| "valid v = False"

text \<open>The body of \<^verbatim>\<open>if (pkt.rollingCode == generateRollingCode(testCounter))\<close>, lines
  149-205; \<open>ms\<close> is what \<^verbatim>\<open>millis()\<close> returns.\<close>

definition rollingCodeValid :: "u32 \<Rightarrow> Packet \<Rightarrow> u32 \<Rightarrow> state \<Rightarrow> verdict \<times> state" where
  "rollingCodeValid ms pkt testCounter s =
     (let s1 = s\<lparr>lastRollingCounter := testCounter + 1\<rparr>;
          s2 = (if lastRollingCounter s1 - lastSavedCounter s1 \<ge> EEPROM_SAVE_INTERVAL
                then s1\<lparr>eeprom := lastRollingCounter s1,
                        eepromCommits := eepromCommits s1 + 1,
                        lastSavedCounter := lastRollingCounter s1\<rparr>
                else s1);
          currentEpoch = (ms div 1000) div 30;
          currentTOTP = generateTOTP currentEpoch;
          s3 = s2\<lparr>hmacCalls := hmacCalls s2 + 1\<rparr>
      in if totp pkt = currentTOTP then (TotpValidCurrent, s3)
         else
           (let prevTOTP = generateTOTP (currentEpoch - 1);
                s4 = s3\<lparr>hmacCalls := hmacCalls s3 + 1\<rparr>
            in if totp pkt = prevTOTP then (TotpValidPrevious, s4)
               else (TotpMismatch, s4\<lparr>txLog := txLog s4 @ [0]\<rparr>)))"

text \<open>The loop \<^verbatim>\<open>for (uint16_t offset = 0; offset < ROLLING_WINDOW; offset++)\<close>; the offset
  stays below 257 and never wraps.\<close>

function windowLoop :: "u32 \<Rightarrow> Packet \<Rightarrow> nat \<Rightarrow> state \<Rightarrow> verdict \<times> state" where
  "windowLoop ms pkt offset s =
     (if offset < ROLLING_WINDOW then
        (let testCounter = lastRollingCounter s + of_nat offset;
             s' = s\<lparr>aesCalls := aesCalls s + 1\<rparr>
         in if rollingCode pkt = generateRollingCode testCounter
            then rollingCodeValid ms pkt testCounter s'
            else windowLoop ms pkt (offset + 1) s')
      else (NotInWindow, s))"
  by pat_completeness auto
termination
  by (relation "measure (\<lambda>(ms, pkt, offset, s). ROLLING_WINDOW - offset)") auto

declare windowLoop.simps [simp del]

definition validatePacket :: "u32 \<Rightarrow> Packet \<Rightarrow> state \<Rightarrow> verdict \<times> state" where
  "validatePacket ms pkt s =
     (if carID pkt \<noteq> CAR_ID \<or> keyfobID pkt \<noteq> KEYFOB_ID then (InvalidID, s)
      else windowLoop ms pkt 0 s)"

section \<open>Actions, start-up and the main loop (\<^verbatim>\<open>car.ino\<close>, lines 219-323)\<close>

definition lockCar :: "state \<Rightarrow> state" where
  "lockCar s = s\<lparr>locked := True\<rparr>"

definition unlockCar :: "state \<Rightarrow> state" where
  "unlockCar s = s\<lparr>locked := False\<rparr>"

text \<open>\<^verbatim>\<open>setup()\<close>. When the radio does not answer (\<^verbatim>\<open>getCC1101()\<close> is false) the sketch
  stalls in \<^verbatim>\<open>while(1)\<close>; the counter has been loaded by then.\<close>

datatype boot = Ready | Stalled

definition setupCar :: "bool \<Rightarrow> state \<Rightarrow> boot \<times> state" where
  "setupCar getCC1101 s0 =
     (let s1 = lockCar s0;
          s2 = s1\<lparr>lastRollingCounter := eeprom s1\<rparr>;
          s3 = (if lastRollingCounter s2 = 0xFFFFFFFF \<or> lastRollingCounter s2 > 0xFFFFFF00
                then s2\<lparr>lastRollingCounter := 0, eeprom := 0,
                        eepromCommits := eepromCommits s2 + 1\<rparr>
                else s2);
          s4 = s3\<lparr>lastSavedCounter := lastRollingCounter s3\<rparr>
      in (if getCC1101 then Ready else Stalled, s4))"

text \<open>One pass of \<^verbatim>\<open>loop()\<close>. \<open>rx\<close> is \<open>None\<close> when \<^verbatim>\<open>CheckRxFifo\<close> finds nothing, and the
  received frame otherwise; \<^verbatim>\<open>ReceiveData\<close> returns its length as a \<^verbatim>\<open>byte\<close>. The result
  names the line the pass prints.\<close>

datatype rx_result = NoFrame | WrongPacketSize | PacketValid verdict | PacketInvalid verdict

definition loop :: "u32 \<Rightarrow> byte list option \<Rightarrow> state \<Rightarrow> rx_result \<times> state" where
  "loop ms rx s =
     (case rx of
        None \<Rightarrow> (NoFrame, s)
      | Some rxBuffer \<Rightarrow>
          (let len = (of_nat (length rxBuffer) :: byte)
           in if unat len = sizeof_Packet then
                (let pkt = parsePacket rxBuffer;
                     (v, s') = validatePacket ms pkt s
                 in if valid v then
                      (PacketValid v,
                       if action pkt = ACTION_UNLOCK then unlockCar s'
                       else if action pkt = ACTION_LOCK then lockCar s'
                       else s')
                    else (PacketInvalid v, s'))
              else (WrongPacketSize, s)))"

text \<open>The states the receiver can be in: after a start-up that found the radio, and after
  any number of passes of the main loop, whatever arrives and whenever.\<close>

inductive reachable :: "state \<Rightarrow> bool" where
  boot: "reachable (snd (setupCar True s0))"
| pass: "reachable s \<Longrightarrow> reachable (snd (loop ms rx s))"

text \<open>A sequence of validation calls, each with the clock value it reads.\<close>

fun validations :: "(u32 \<times> Packet) list \<Rightarrow> state \<Rightarrow> state" where
  "validations [] s = s"
| "validations ((ms, pkt) # calls) s = validations calls (snd (validatePacket ms pkt s))"


text \<open>No counter among the \<open>n\<close> from \<open>c\<close> on has the rolling code \<open>rc\<close>: the
  window search as a check that can be run.\<close>

fun noneMatch :: "nat \<Rightarrow> u32 \<Rightarrow> u32 \<Rightarrow> bool" where
  "noneMatch 0 c rc = True"
| "noneMatch (Suc n) c rc = (generateRollingCode c \<noteq> rc \<and> noneMatch n (c + 1) rc)"

text \<open>The paired key fob asks to lock with its counter at \<open>c\<close>, while the receiver's
  clock reads 0 ms: the call the receiver makes then.\<close>

definition press :: "u32 \<Rightarrow> u32 \<times> Packet" where
  "press c = (0, \<lparr>carID = CAR_ID, keyfobID = KEYFOB_ID, action = ACTION_LOCK,
                  rollingCode = generateRollingCode c, totp = generateTOTP 0\<rparr>)"

section \<open>The time code as the specification words it\<close>

text \<open>
  The 8-byte big-endian serialisation of the epoch, the keyed hash under the time-code
  secret, the low nibble of the last digest byte as offset, four bytes from there read
  big-endian with the top bit cleared, modulo one million.
\<close>

definition timeCodeSpec :: "u32 \<Rightarrow> u32" where
  "timeCodeSpec epoch =
     (let digest = hmac_sha256 TOTP_SECRET (be_bytes 8 (ucast epoch :: 64 word));
          ofs = unat (last digest) mod 16;
          v = be32 (take 4 (drop ofs digest)) AND 0x7FFFFFFF
      in v mod 1000000)"

section \<open>The window search\<close>

text \<open>What the loop returns when no candidate of the window matches, and when the first
  match is at offset \<open>k\<close>.\<close>

lemma windowLoop_exhausted:
  assumes "offset \<le> ROLLING_WINDOW"
    and "\<And>j. offset \<le> j \<Longrightarrow> j < ROLLING_WINDOW \<Longrightarrow>
           generateRollingCode (lastRollingCounter s + of_nat j) \<noteq> rollingCode pkt"
  shows "windowLoop ms pkt offset s =
           (NotInWindow, s\<lparr>aesCalls := aesCalls s + ROLLING_WINDOW - offset\<rparr>)"
  using assms
proof (induction "ROLLING_WINDOW - offset" arbitrary: offset s)
  case 0
  then have "offset = ROLLING_WINDOW" by simp
  then show ?case by (subst windowLoop.simps) simp
next
  case (Suc n)
  then have lt: "offset < ROLLING_WINDOW" by simp
  let ?s' = "s\<lparr>aesCalls := aesCalls s + 1\<rparr>"
  have ne: "generateRollingCode (lastRollingCounter s + of_nat offset) \<noteq> rollingCode pkt"
    using Suc.prems(2) [of offset] lt by simp
  have step: "windowLoop ms pkt offset s = windowLoop ms pkt (offset + 1) ?s'"
    using lt ne by (subst windowLoop.simps) (simp add: Let_def)
  have "windowLoop ms pkt (offset + 1) ?s' =
          (NotInWindow, ?s'\<lparr>aesCalls := aesCalls ?s' + ROLLING_WINDOW - (offset + 1)\<rparr>)"
  proof (rule Suc.hyps(1))
    show "n = ROLLING_WINDOW - (offset + 1)" using Suc.hyps(2) by simp
    show "offset + 1 \<le> ROLLING_WINDOW" using lt by simp
    fix j assume "offset + 1 \<le> j" "j < ROLLING_WINDOW"
    then show "generateRollingCode (lastRollingCounter ?s' + of_nat j) \<noteq> rollingCode pkt"
      using Suc.prems(2) [of j] by simp
  qed
  with step lt show ?case by simp
qed

lemma windowLoop_first_match:
  assumes "offset \<le> k" and "k < ROLLING_WINDOW"
    and "generateRollingCode (lastRollingCounter s + of_nat k) = rollingCode pkt"
    and "\<And>j. offset \<le> j \<Longrightarrow> j < k \<Longrightarrow>
           generateRollingCode (lastRollingCounter s + of_nat j) \<noteq> rollingCode pkt"
  shows "windowLoop ms pkt offset s =
           rollingCodeValid ms pkt (lastRollingCounter s + of_nat k)
             (s\<lparr>aesCalls := aesCalls s + Suc k - offset\<rparr>)"
  using assms
proof (induction "k - offset" arbitrary: offset s)
  case 0
  then have "offset = k" by simp
  with 0 show ?case by (subst windowLoop.simps) (simp add: Let_def)
next
  case (Suc n)
  then have lt: "offset < k" by simp
  let ?s' = "s\<lparr>aesCalls := aesCalls s + 1\<rparr>"
  have ne: "generateRollingCode (lastRollingCounter s + of_nat offset) \<noteq> rollingCode pkt"
    using Suc.prems(4) [of offset] lt by simp
  have step: "windowLoop ms pkt offset s = windowLoop ms pkt (offset + 1) ?s'"
    using lt ne Suc.prems(2) by (subst windowLoop.simps) (simp add: Let_def)
  have "windowLoop ms pkt (offset + 1) ?s' =
          rollingCodeValid ms pkt (lastRollingCounter ?s' + of_nat k)
            (?s'\<lparr>aesCalls := aesCalls ?s' + Suc k - (offset + 1)\<rparr>)"
  proof (rule Suc.hyps(1))
    show "n = k - (offset + 1)" using Suc.hyps(2) by simp
    show "offset + 1 \<le> k" using lt by simp
    show "k < ROLLING_WINDOW" by (rule Suc.prems(2))
    show "generateRollingCode (lastRollingCounter ?s' + of_nat k) = rollingCode pkt"
      using Suc.prems(3) by simp
    fix j assume "offset + 1 \<le> j" "j < k"
    then show "generateRollingCode (lastRollingCounter ?s' + of_nat j) \<noteq> rollingCode pkt"
      using Suc.prems(4) [of j] by simp
  qed
  with step show ?case by simp
qed

lemma word_of_nat_neq_0:
  assumes "0 < n" and "n < 2 ^ 32"
  shows "(of_nat n :: u32) \<noteq> 0"
proof
  assume "(of_nat n :: u32) = 0"
  then have "unat (of_nat n :: u32) = 0" by simp
  moreover have "unat (of_nat n :: u32) = n" using assms(2) by (intro of_nat_inverse) simp_all
  ultimately show False using assms(1) by simp
qed

lemma rollingCodeValid_counter:
  "lastRollingCounter (snd (rollingCodeValid ms pkt c s)) = c + 1"
  by (simp add: rollingCodeValid_def Let_def)

lemma rollingCodeValid_verdict:
  "fst (rollingCodeValid ms pkt c s) =
     (if totp pkt = generateTOTP ((ms div 1000) div 30) then TotpValidCurrent
      else if totp pkt = generateTOTP ((ms div 1000) div 30 - 1) then TotpValidPrevious
      else TotpMismatch)"
  by (simp add: rollingCodeValid_def Let_def)

lemma rollingCodeValid_txLog:
  "txLog (snd (rollingCodeValid ms pkt c s)) =
     (if fst (rollingCodeValid ms pkt c s) = TotpMismatch then txLog s @ [0] else txLog s)"
  by (simp add: rollingCodeValid_def Let_def)

lemma first_match_exists:
  assumes "k < ROLLING_WINDOW"
    and "generateRollingCode (L + of_nat k) = rc"
  obtains j where "j \<le> k" and "generateRollingCode (L + of_nat j) = rc"
    and "\<And>i. i < j \<Longrightarrow> generateRollingCode (L + of_nat i) \<noteq> rc"
proof -
  let ?P = "\<lambda>j. generateRollingCode (L + of_nat j) = rc"
  have "?P (LEAST j. ?P j)" using assms(2) by (rule LeastI)
  moreover have "(LEAST j. ?P j) \<le> k" using assms(2) by (rule Least_le)
  moreover have "\<And>i. i < (LEAST j. ?P j) \<Longrightarrow> \<not> ?P i" by (rule not_less_Least)
  ultimately show ?thesis using that by blast
qed

lemma validatePacket_first_match:
  assumes "carID pkt = CAR_ID" and "keyfobID pkt = KEYFOB_ID"
    and "k < ROLLING_WINDOW"
    and "generateRollingCode (lastRollingCounter s + of_nat k) = rollingCode pkt"
    and "\<And>j. j < k \<Longrightarrow> generateRollingCode (lastRollingCounter s + of_nat j) \<noteq> rollingCode pkt"
  shows "validatePacket ms pkt s =
           rollingCodeValid ms pkt (lastRollingCounter s + of_nat k)
             (s\<lparr>aesCalls := aesCalls s + Suc k\<rparr>)"
  using assms windowLoop_first_match [of 0 k s pkt ms]
  by (simp add: validatePacket_def)

lemma validatePacket_exhausted:
  assumes "carID pkt = CAR_ID" and "keyfobID pkt = KEYFOB_ID"
    and "\<And>j. j < ROLLING_WINDOW \<Longrightarrow>
           generateRollingCode (lastRollingCounter s + of_nat j) \<noteq> rollingCode pkt"
  shows "validatePacket ms pkt s = (NotInWindow, s\<lparr>aesCalls := aesCalls s + ROLLING_WINDOW\<rparr>)"
  using assms windowLoop_exhausted [of 0 s pkt ms]
  by (simp add: validatePacket_def)


lemma validatePacket_cases:
  "validatePacket ms pkt s = (InvalidID, s) \<or>
   validatePacket ms pkt s = (NotInWindow, s\<lparr>aesCalls := aesCalls s + ROLLING_WINDOW\<rparr>) \<or>
   (\<exists>j<ROLLING_WINDOW. validatePacket ms pkt s =
        rollingCodeValid ms pkt (lastRollingCounter s + of_nat j)
          (s\<lparr>aesCalls := aesCalls s + Suc j\<rparr>))"
proof (cases "carID pkt = CAR_ID \<and> keyfobID pkt = KEYFOB_ID")
  case False
  then show ?thesis by (simp add: validatePacket_def)
next
  case ids: True
  show ?thesis
  proof (cases "\<exists>k<ROLLING_WINDOW.
                  generateRollingCode (lastRollingCounter s + of_nat k) = rollingCode pkt")
    case True
    then obtain k where k: "k < ROLLING_WINDOW"
      "generateRollingCode (lastRollingCounter s + of_nat k) = rollingCode pkt" by blast
    obtain j where j: "j \<le> k"
      "generateRollingCode (lastRollingCounter s + of_nat j) = rollingCode pkt"
      "\<And>i. i < j \<Longrightarrow> generateRollingCode (lastRollingCounter s + of_nat i) \<noteq> rollingCode pkt"
      using first_match_exists [OF k] by metis
    have jw: "j < ROLLING_WINDOW" using j(1) k(1) by simp
    have "validatePacket ms pkt s =
             rollingCodeValid ms pkt (lastRollingCounter s + of_nat j)
               (s\<lparr>aesCalls := aesCalls s + Suc j\<rparr>)"
      using validatePacket_first_match [of pkt j s ms] ids jw j(2,3) by blast
    with jw show ?thesis by blast
  next
    case False
    then have "validatePacket ms pkt s =
                 (NotInWindow, s\<lparr>aesCalls := aesCalls s + ROLLING_WINDOW\<rparr>)"
      using validatePacket_exhausted [of pkt s ms] ids by blast
    then show ?thesis by simp
  qed
qed

section \<open>The time-code generator\<close>

lemma generateTOTP_bound: "generateTOTP e < 1000000"
  by (simp add: generateTOTP_def Let_def word_mod_less_divisor)

lemma upt_8: "[0..<8] = [0, 1, 2, 3, 4, 5, 6, 7::nat]"
  by (simp add: upt_rec)

lemma fillMsg_unrolled:
  "fillMsg 8 e (replicate 8 0) =
     [ucast (drop_bit 56 e AND 0xFF), ucast (drop_bit 48 e AND 0xFF),
      ucast (drop_bit 40 e AND 0xFF), ucast (drop_bit 32 e AND 0xFF),
      ucast (drop_bit 24 e AND 0xFF), ucast (drop_bit 16 e AND 0xFF),
      ucast (drop_bit 8 e AND 0xFF), ucast (e AND 0xFF)]"
  by (simp add: eval_nat_numeral drop_bit_drop_bit)

lemma low_byte_of_epoch:
  "(ucast (drop_bit n (e::u32) AND 0xFF) :: byte) = ucast (drop_bit n (ucast e :: 64 word))"
proof -
  have m: "(0xFF :: u32) = mask 8" by (simp add: mask_eq_exp_minus_1)
  show ?thesis
    unfolding m by (rule bit_eqI) (auto simp: bit_simps dest: bit_imp_le_length)
qed

lemma fillMsg_be: "fillMsg 8 e (replicate 8 0) = be_bytes 8 (ucast e :: 64 word)"
proof -
  have r: "be_bytes 8 w =
        [ucast (drop_bit 56 w), ucast (drop_bit 48 w), ucast (drop_bit 40 w),
         ucast (drop_bit 32 w), ucast (drop_bit 24 w), ucast (drop_bit 16 w),
         ucast (drop_bit 8 w), ucast (drop_bit 0 w)]" for w :: "64 word"
    by (simp add: be_bytes_def upt_8)
  have z: "(ucast (e AND 0xFF) :: byte) = ucast (drop_bit 0 (ucast e :: 64 word))"
    using low_byte_of_epoch [of 0 e] by simp
  show ?thesis
    by (simp only: fillMsg_unrolled r low_byte_of_epoch z)
qed

lemma be32_four:
  "be32 [a, b, c, d] AND 0x7FFFFFFF =
     push_bit 24 (ucast (a AND 0x7F)) OR push_bit 16 (ucast (b AND 0xFF))
     OR push_bit 8 (ucast (c AND 0xFF)) OR ucast (d AND 0xFF)"
proof -
  have m: "(0x7FFFFFFF :: u32) = mask 31" "(0x7F :: byte) = mask 7" "(0xFF :: byte) = mask 8"
    by (simp_all add: mask_eq_exp_minus_1)
  show ?thesis
    unfolding be32_def m
    by (rule bit_eqI) (auto simp: bit_simps dest: bit_imp_le_length)
qed


lemma length_sha_round: "length hs = 8 \<Longrightarrow> length (sha_round hs kw) = 8"
proof -
  assume "length hs = 8"
  then obtain a b c d e f g h where "hs = [a, b, c, d, e, f, g, h]"
    by (auto simp: eval_nat_numeral length_Suc_conv)
  then show ?thesis by (cases kw) (simp add: Let_def)
qed

lemma length_foldl_sha_round: "length hs = 8 \<Longrightarrow> length (foldl sha_round hs kws) = 8"
  by (induction kws arbitrary: hs) (simp_all add: length_sha_round)

lemma length_compress: "length hs = 8 \<Longrightarrow> length (compress hs block) = 8"
  by (simp add: compress_def Let_def length_foldl_sha_round)

lemma length_foldl_compress: "length hs = 8 \<Longrightarrow> length (foldl compress hs blocks) = 8"
  by (induction blocks arbitrary: hs) (simp_all add: length_compress)

lemma length_concat_be_bytes: "length (concat (map (be_bytes 4) hs)) = 4 * length hs"
  by (induction hs) (simp_all add: be_bytes_def)

lemma length_sha256: "length (sha256 m) = 32"
  by (simp add: sha256_def Let_def length_concat_be_bytes length_foldl_compress sha256_h0_def)

lemma length_hmac_sha256: "length (hmac_sha256 key m) = 32"
  by (simp add: hmac_sha256_def Let_def length_sha256)

lemma low_nibble: "unat ((x::byte) AND 0x0F) = unat x mod 16"
proof -
  have "x AND 0x0F = take_bit 4 x"
    by (simp add: take_bit_eq_mask mask_eq_exp_minus_1)
  then show ?thesis
    by (simp add: take_bit_eq_mod unat_mod)
qed

lemma four_bytes_at:
  assumes "length h = 32" and "ofs < 16"
  shows "take 4 (drop ofs h) = [h ! ofs, h ! (ofs + 1), h ! (ofs + 2), h ! (ofs + 3)]"
proof -
  have d: "drop n h = h ! n # drop (Suc n) h" if "n < 32" for n
    using that assms(1) by (simp add: Cons_nth_drop_Suc)
  have "take 4 (drop ofs h) = take (Suc (Suc (Suc (Suc 0)))) (drop ofs h)"
    by (simp add: numeral_eq_Suc)
  also have "\<dots> = [h ! ofs, h ! Suc ofs, h ! Suc (Suc ofs), h ! Suc (Suc (Suc ofs))]"
    using assms(2) by (simp add: d)
  finally show ?thesis by (simp add: numeral_eq_Suc)
qed

section \<open>Persisting the counter\<close>

lemma validations_append:
  "validations (xs @ ys) s = validations ys (validations xs s)"
  by (induction xs arbitrary: s) auto

lemma validations_single:
  "validations [c] s = snd (validatePacket (fst c) (snd c) s)"
  by (cases c) simp

lemma validations_take_Suc:
  assumes "i < length calls"
  shows "validations (take (Suc i) calls) s =
           snd (validatePacket (fst (calls ! i)) (snd (calls ! i)) (validations (take i calls) s))"
proof -
  have "take (Suc i) calls = take i calls @ [(fst (calls ! i), snd (calls ! i))]"
    using assms by (simp add: take_Suc_conv_app_nth)
  then show ?thesis by (simp add: validations_append validations_single)
qed

lemma rollingCodeValid_persist:
  "eepromCommits (snd (rollingCodeValid ms pkt c s)) =
     (if c + 1 - lastSavedCounter s \<ge> EEPROM_SAVE_INTERVAL then eepromCommits s + 1
      else eepromCommits s)"
  "eeprom (snd (rollingCodeValid ms pkt c s)) =
     (if c + 1 - lastSavedCounter s \<ge> EEPROM_SAVE_INTERVAL then c + 1 else eeprom s)"
  "lastSavedCounter (snd (rollingCodeValid ms pkt c s)) =
     (if c + 1 - lastSavedCounter s \<ge> EEPROM_SAVE_INTERVAL then c + 1 else lastSavedCounter s)"
  by (simp_all add: rollingCodeValid_def Let_def)

lemma validatePacket_persistence:
  fixes s :: state and ms :: u32 and pkt :: Packet
  defines "s' \<equiv> snd (validatePacket ms pkt s)"
  shows "if lastRollingCounter s' \<noteq> lastRollingCounter s \<and>
            lastRollingCounter s' - lastSavedCounter s \<ge> EEPROM_SAVE_INTERVAL
         then eepromCommits s' = eepromCommits s + 1 \<and> eeprom s' = lastRollingCounter s' \<and>
              lastSavedCounter s' = lastRollingCounter s'
         else eepromCommits s' = eepromCommits s \<and> eeprom s' = eeprom s \<and>
              lastSavedCounter s' = lastSavedCounter s"
proof -
  consider (id) "validatePacket ms pkt s = (InvalidID, s)"
    | (no) "validatePacket ms pkt s = (NotInWindow, s\<lparr>aesCalls := aesCalls s + ROLLING_WINDOW\<rparr>)"
    | (match) j where "j < ROLLING_WINDOW"
        "validatePacket ms pkt s =
           rollingCodeValid ms pkt (lastRollingCounter s + of_nat j)
             (s\<lparr>aesCalls := aesCalls s + Suc j\<rparr>)"
    using validatePacket_cases [of ms pkt s] by blast
  then show ?thesis
  proof cases
    case id
    then show ?thesis by (simp add: s'_def)
  next
    case no
    then show ?thesis by (simp add: s'_def)
  next
    case match
    have "of_nat (Suc j) \<noteq> (0::u32)"
      using match(1) by (intro word_of_nat_neq_0) (simp_all add: ROLLING_WINDOW_def)
    then have ne: "lastRollingCounter s + of_nat j + 1 \<noteq> lastRollingCounter s"
      by (simp add: add.assoc add.commute)
    show ?thesis
      using ne by (simp add: s'_def match(2) rollingCodeValid_counter rollingCodeValid_persist)
  qed
qed

section \<open>Advancing the counter without wrap-around\<close>

lemma unat_counter_advance:
  assumes "(L::u32) \<le> 0xFFFFFEFF" and "j < ROLLING_WINDOW"
  shows "unat (L + of_nat j + 1) = unat L + Suc j"
proof -
  have L: "unat L \<le> 4294967039" using assms(1) by (simp add: word_le_nat_alt)
  have j: "unat (of_nat (Suc j) :: u32) = Suc j"
    using assms(2) by (intro of_nat_inverse) (simp_all add: ROLLING_WINDOW_def)
  have "unat (L + of_nat (Suc j)) = unat L + unat (of_nat (Suc j) :: u32)"
    using L j assms(2) by (subst unat_add_lem [symmetric]) (simp add: ROLLING_WINDOW_def)
  moreover have "L + of_nat j + 1 = L + of_nat (Suc j)" by simp
  ultimately show ?thesis using j by (simp only:)
qed

section \<open>The layout of the packet\<close>

lemma sizeof_Packet_20: "sizeof_Packet = 20"
  by (simp add: sizeof_Packet_def sizeof_struct_def Packet_members_def align_up_def)

lemma Packet_offsets: "member_offsets 0 Packet_members = [0, 4, 8, 12, 16]"
  by (simp add: Packet_members_def align_up_def Let_def)

section \<open>Evaluating the cipher\<close>

text \<open>
  The S-box and the doubling in the field of 256 elements as tables of equations, the key schedule of the
  rolling-code key, and one round on a state of sixteen bytes spelled out: with these the
  simplifier computes \<open>generateRollingCode\<close> on a numeral.
\<close>

lemma subByte_tab0:
  "subByte 0x00 = 0x63" "subByte 0x01 = 0x7C" "subByte 0x02 = 0x77" "subByte 0x03 = 0x7B"
  "subByte 0x04 = 0xF2" "subByte 0x05 = 0x6B" "subByte 0x06 = 0x6F" "subByte 0x07 = 0xC5"
  "subByte 0x08 = 0x30" "subByte 0x09 = 0x01" "subByte 0x0A = 0x67" "subByte 0x0B = 0x2B"
  "subByte 0x0C = 0xFE" "subByte 0x0D = 0xD7" "subByte 0x0E = 0xAB" "subByte 0x0F = 0x76"
  "subByte 0x10 = 0xCA" "subByte 0x11 = 0x82" "subByte 0x12 = 0xC9" "subByte 0x13 = 0x7D"
  "subByte 0x14 = 0xFA" "subByte 0x15 = 0x59" "subByte 0x16 = 0x47" "subByte 0x17 = 0xF0"
  "subByte 0x18 = 0xAD" "subByte 0x19 = 0xD4" "subByte 0x1A = 0xA2" "subByte 0x1B = 0xAF"
  "subByte 0x1C = 0x9C" "subByte 0x1D = 0xA4" "subByte 0x1E = 0x72" "subByte 0x1F = 0xC0"
  by (simp_all add: subByte_def sbox_def)

lemma subByte_tab1:
  "subByte 0x20 = 0xB7" "subByte 0x21 = 0xFD" "subByte 0x22 = 0x93" "subByte 0x23 = 0x26"
  "subByte 0x24 = 0x36" "subByte 0x25 = 0x3F" "subByte 0x26 = 0xF7" "subByte 0x27 = 0xCC"
  "subByte 0x28 = 0x34" "subByte 0x29 = 0xA5" "subByte 0x2A = 0xE5" "subByte 0x2B = 0xF1"
  "subByte 0x2C = 0x71" "subByte 0x2D = 0xD8" "subByte 0x2E = 0x31" "subByte 0x2F = 0x15"
  "subByte 0x30 = 0x04" "subByte 0x31 = 0xC7" "subByte 0x32 = 0x23" "subByte 0x33 = 0xC3"
  "subByte 0x34 = 0x18" "subByte 0x35 = 0x96" "subByte 0x36 = 0x05" "subByte 0x37 = 0x9A"
  "subByte 0x38 = 0x07" "subByte 0x39 = 0x12" "subByte 0x3A = 0x80" "subByte 0x3B = 0xE2"
  "subByte 0x3C = 0xEB" "subByte 0x3D = 0x27" "subByte 0x3E = 0xB2" "subByte 0x3F = 0x75"
  by (simp_all add: subByte_def sbox_def)

lemma subByte_tab2:
  "subByte 0x40 = 0x09" "subByte 0x41 = 0x83" "subByte 0x42 = 0x2C" "subByte 0x43 = 0x1A"
  "subByte 0x44 = 0x1B" "subByte 0x45 = 0x6E" "subByte 0x46 = 0x5A" "subByte 0x47 = 0xA0"
  "subByte 0x48 = 0x52" "subByte 0x49 = 0x3B" "subByte 0x4A = 0xD6" "subByte 0x4B = 0xB3"
  "subByte 0x4C = 0x29" "subByte 0x4D = 0xE3" "subByte 0x4E = 0x2F" "subByte 0x4F = 0x84"
  "subByte 0x50 = 0x53" "subByte 0x51 = 0xD1" "subByte 0x52 = 0x00" "subByte 0x53 = 0xED"
  "subByte 0x54 = 0x20" "subByte 0x55 = 0xFC" "subByte 0x56 = 0xB1" "subByte 0x57 = 0x5B"
  "subByte 0x58 = 0x6A" "subByte 0x59 = 0xCB" "subByte 0x5A = 0xBE" "subByte 0x5B = 0x39"
  "subByte 0x5C = 0x4A" "subByte 0x5D = 0x4C" "subByte 0x5E = 0x58" "subByte 0x5F = 0xCF"
  by (simp_all add: subByte_def sbox_def)

lemma subByte_tab3:
  "subByte 0x60 = 0xD0" "subByte 0x61 = 0xEF" "subByte 0x62 = 0xAA" "subByte 0x63 = 0xFB"
  "subByte 0x64 = 0x43" "subByte 0x65 = 0x4D" "subByte 0x66 = 0x33" "subByte 0x67 = 0x85"
  "subByte 0x68 = 0x45" "subByte 0x69 = 0xF9" "subByte 0x6A = 0x02" "subByte 0x6B = 0x7F"
  "subByte 0x6C = 0x50" "subByte 0x6D = 0x3C" "subByte 0x6E = 0x9F" "subByte 0x6F = 0xA8"
  "subByte 0x70 = 0x51" "subByte 0x71 = 0xA3" "subByte 0x72 = 0x40" "subByte 0x73 = 0x8F"
  "subByte 0x74 = 0x92" "subByte 0x75 = 0x9D" "subByte 0x76 = 0x38" "subByte 0x77 = 0xF5"
  "subByte 0x78 = 0xBC" "subByte 0x79 = 0xB6" "subByte 0x7A = 0xDA" "subByte 0x7B = 0x21"
  "subByte 0x7C = 0x10" "subByte 0x7D = 0xFF" "subByte 0x7E = 0xF3" "subByte 0x7F = 0xD2"
  by (simp_all add: subByte_def sbox_def)

lemma subByte_tab4:
  "subByte 0x80 = 0xCD" "subByte 0x81 = 0x0C" "subByte 0x82 = 0x13" "subByte 0x83 = 0xEC"
  "subByte 0x84 = 0x5F" "subByte 0x85 = 0x97" "subByte 0x86 = 0x44" "subByte 0x87 = 0x17"
  "subByte 0x88 = 0xC4" "subByte 0x89 = 0xA7" "subByte 0x8A = 0x7E" "subByte 0x8B = 0x3D"
  "subByte 0x8C = 0x64" "subByte 0x8D = 0x5D" "subByte 0x8E = 0x19" "subByte 0x8F = 0x73"
  "subByte 0x90 = 0x60" "subByte 0x91 = 0x81" "subByte 0x92 = 0x4F" "subByte 0x93 = 0xDC"
  "subByte 0x94 = 0x22" "subByte 0x95 = 0x2A" "subByte 0x96 = 0x90" "subByte 0x97 = 0x88"
  "subByte 0x98 = 0x46" "subByte 0x99 = 0xEE" "subByte 0x9A = 0xB8" "subByte 0x9B = 0x14"
  "subByte 0x9C = 0xDE" "subByte 0x9D = 0x5E" "subByte 0x9E = 0x0B" "subByte 0x9F = 0xDB"
  by (simp_all add: subByte_def sbox_def)

lemma subByte_tab5:
  "subByte 0xA0 = 0xE0" "subByte 0xA1 = 0x32" "subByte 0xA2 = 0x3A" "subByte 0xA3 = 0x0A"
  "subByte 0xA4 = 0x49" "subByte 0xA5 = 0x06" "subByte 0xA6 = 0x24" "subByte 0xA7 = 0x5C"
  "subByte 0xA8 = 0xC2" "subByte 0xA9 = 0xD3" "subByte 0xAA = 0xAC" "subByte 0xAB = 0x62"
  "subByte 0xAC = 0x91" "subByte 0xAD = 0x95" "subByte 0xAE = 0xE4" "subByte 0xAF = 0x79"
  "subByte 0xB0 = 0xE7" "subByte 0xB1 = 0xC8" "subByte 0xB2 = 0x37" "subByte 0xB3 = 0x6D"
  "subByte 0xB4 = 0x8D" "subByte 0xB5 = 0xD5" "subByte 0xB6 = 0x4E" "subByte 0xB7 = 0xA9"
  "subByte 0xB8 = 0x6C" "subByte 0xB9 = 0x56" "subByte 0xBA = 0xF4" "subByte 0xBB = 0xEA"
  "subByte 0xBC = 0x65" "subByte 0xBD = 0x7A" "subByte 0xBE = 0xAE" "subByte 0xBF = 0x08"
  by (simp_all add: subByte_def sbox_def)

lemma subByte_tab6:
  "subByte 0xC0 = 0xBA" "subByte 0xC1 = 0x78" "subByte 0xC2 = 0x25" "subByte 0xC3 = 0x2E"
  "subByte 0xC4 = 0x1C" "subByte 0xC5 = 0xA6" "subByte 0xC6 = 0xB4" "subByte 0xC7 = 0xC6"
  "subByte 0xC8 = 0xE8" "subByte 0xC9 = 0xDD" "subByte 0xCA = 0x74" "subByte 0xCB = 0x1F"
  "subByte 0xCC = 0x4B" "subByte 0xCD = 0xBD" "subByte 0xCE = 0x8B" "subByte 0xCF = 0x8A"
  "subByte 0xD0 = 0x70" "subByte 0xD1 = 0x3E" "subByte 0xD2 = 0xB5" "subByte 0xD3 = 0x66"
  "subByte 0xD4 = 0x48" "subByte 0xD5 = 0x03" "subByte 0xD6 = 0xF6" "subByte 0xD7 = 0x0E"
  "subByte 0xD8 = 0x61" "subByte 0xD9 = 0x35" "subByte 0xDA = 0x57" "subByte 0xDB = 0xB9"
  "subByte 0xDC = 0x86" "subByte 0xDD = 0xC1" "subByte 0xDE = 0x1D" "subByte 0xDF = 0x9E"
  by (simp_all add: subByte_def sbox_def)

lemma subByte_tab7:
  "subByte 0xE0 = 0xE1" "subByte 0xE1 = 0xF8" "subByte 0xE2 = 0x98" "subByte 0xE3 = 0x11"
  "subByte 0xE4 = 0x69" "subByte 0xE5 = 0xD9" "subByte 0xE6 = 0x8E" "subByte 0xE7 = 0x94"
  "subByte 0xE8 = 0x9B" "subByte 0xE9 = 0x1E" "subByte 0xEA = 0x87" "subByte 0xEB = 0xE9"
  "subByte 0xEC = 0xCE" "subByte 0xED = 0x55" "subByte 0xEE = 0x28" "subByte 0xEF = 0xDF"
  "subByte 0xF0 = 0x8C" "subByte 0xF1 = 0xA1" "subByte 0xF2 = 0x89" "subByte 0xF3 = 0x0D"
  "subByte 0xF4 = 0xBF" "subByte 0xF5 = 0xE6" "subByte 0xF6 = 0x42" "subByte 0xF7 = 0x68"
  "subByte 0xF8 = 0x41" "subByte 0xF9 = 0x99" "subByte 0xFA = 0x2D" "subByte 0xFB = 0x0F"
  "subByte 0xFC = 0xB0" "subByte 0xFD = 0x54" "subByte 0xFE = 0xBB" "subByte 0xFF = 0x16"
  by (simp_all add: subByte_def sbox_def)

lemmas subByte_tab = subByte_tab0 subByte_tab1 subByte_tab2 subByte_tab3 subByte_tab4 subByte_tab5 subByte_tab6 subByte_tab7

lemma xtime_tab0:
  "xtime 0x00 = 0x00" "xtime 0x01 = 0x02" "xtime 0x02 = 0x04" "xtime 0x03 = 0x06"
  "xtime 0x04 = 0x08" "xtime 0x05 = 0x0A" "xtime 0x06 = 0x0C" "xtime 0x07 = 0x0E"
  "xtime 0x08 = 0x10" "xtime 0x09 = 0x12" "xtime 0x0A = 0x14" "xtime 0x0B = 0x16"
  "xtime 0x0C = 0x18" "xtime 0x0D = 0x1A" "xtime 0x0E = 0x1C" "xtime 0x0F = 0x1E"
  "xtime 0x10 = 0x20" "xtime 0x11 = 0x22" "xtime 0x12 = 0x24" "xtime 0x13 = 0x26"
  "xtime 0x14 = 0x28" "xtime 0x15 = 0x2A" "xtime 0x16 = 0x2C" "xtime 0x17 = 0x2E"
  "xtime 0x18 = 0x30" "xtime 0x19 = 0x32" "xtime 0x1A = 0x34" "xtime 0x1B = 0x36"
  "xtime 0x1C = 0x38" "xtime 0x1D = 0x3A" "xtime 0x1E = 0x3C" "xtime 0x1F = 0x3E"
  by (simp_all add: xtime_def)

lemma xtime_tab1:
  "xtime 0x20 = 0x40" "xtime 0x21 = 0x42" "xtime 0x22 = 0x44" "xtime 0x23 = 0x46"
  "xtime 0x24 = 0x48" "xtime 0x25 = 0x4A" "xtime 0x26 = 0x4C" "xtime 0x27 = 0x4E"
  "xtime 0x28 = 0x50" "xtime 0x29 = 0x52" "xtime 0x2A = 0x54" "xtime 0x2B = 0x56"
  "xtime 0x2C = 0x58" "xtime 0x2D = 0x5A" "xtime 0x2E = 0x5C" "xtime 0x2F = 0x5E"
  "xtime 0x30 = 0x60" "xtime 0x31 = 0x62" "xtime 0x32 = 0x64" "xtime 0x33 = 0x66"
  "xtime 0x34 = 0x68" "xtime 0x35 = 0x6A" "xtime 0x36 = 0x6C" "xtime 0x37 = 0x6E"
  "xtime 0x38 = 0x70" "xtime 0x39 = 0x72" "xtime 0x3A = 0x74" "xtime 0x3B = 0x76"
  "xtime 0x3C = 0x78" "xtime 0x3D = 0x7A" "xtime 0x3E = 0x7C" "xtime 0x3F = 0x7E"
  by (simp_all add: xtime_def)

lemma xtime_tab2:
  "xtime 0x40 = 0x80" "xtime 0x41 = 0x82" "xtime 0x42 = 0x84" "xtime 0x43 = 0x86"
  "xtime 0x44 = 0x88" "xtime 0x45 = 0x8A" "xtime 0x46 = 0x8C" "xtime 0x47 = 0x8E"
  "xtime 0x48 = 0x90" "xtime 0x49 = 0x92" "xtime 0x4A = 0x94" "xtime 0x4B = 0x96"
  "xtime 0x4C = 0x98" "xtime 0x4D = 0x9A" "xtime 0x4E = 0x9C" "xtime 0x4F = 0x9E"
  "xtime 0x50 = 0xA0" "xtime 0x51 = 0xA2" "xtime 0x52 = 0xA4" "xtime 0x53 = 0xA6"
  "xtime 0x54 = 0xA8" "xtime 0x55 = 0xAA" "xtime 0x56 = 0xAC" "xtime 0x57 = 0xAE"
  "xtime 0x58 = 0xB0" "xtime 0x59 = 0xB2" "xtime 0x5A = 0xB4" "xtime 0x5B = 0xB6"
  "xtime 0x5C = 0xB8" "xtime 0x5D = 0xBA" "xtime 0x5E = 0xBC" "xtime 0x5F = 0xBE"
  by (simp_all add: xtime_def)

lemma xtime_tab3:
  "xtime 0x60 = 0xC0" "xtime 0x61 = 0xC2" "xtime 0x62 = 0xC4" "xtime 0x63 = 0xC6"
  "xtime 0x64 = 0xC8" "xtime 0x65 = 0xCA" "xtime 0x66 = 0xCC" "xtime 0x67 = 0xCE"
  "xtime 0x68 = 0xD0" "xtime 0x69 = 0xD2" "xtime 0x6A = 0xD4" "xtime 0x6B = 0xD6"
  "xtime 0x6C = 0xD8" "xtime 0x6D = 0xDA" "xtime 0x6E = 0xDC" "xtime 0x6F = 0xDE"
  "xtime 0x70 = 0xE0" "xtime 0x71 = 0xE2" "xtime 0x72 = 0xE4" "xtime 0x73 = 0xE6"
  "xtime 0x74 = 0xE8" "xtime 0x75 = 0xEA" "xtime 0x76 = 0xEC" "xtime 0x77 = 0xEE"
  "xtime 0x78 = 0xF0" "xtime 0x79 = 0xF2" "xtime 0x7A = 0xF4" "xtime 0x7B = 0xF6"
  "xtime 0x7C = 0xF8" "xtime 0x7D = 0xFA" "xtime 0x7E = 0xFC" "xtime 0x7F = 0xFE"
  by (simp_all add: xtime_def)

lemma xtime_tab4:
  "xtime 0x80 = 0x1B" "xtime 0x81 = 0x19" "xtime 0x82 = 0x1F" "xtime 0x83 = 0x1D"
  "xtime 0x84 = 0x13" "xtime 0x85 = 0x11" "xtime 0x86 = 0x17" "xtime 0x87 = 0x15"
  "xtime 0x88 = 0x0B" "xtime 0x89 = 0x09" "xtime 0x8A = 0x0F" "xtime 0x8B = 0x0D"
  "xtime 0x8C = 0x03" "xtime 0x8D = 0x01" "xtime 0x8E = 0x07" "xtime 0x8F = 0x05"
  "xtime 0x90 = 0x3B" "xtime 0x91 = 0x39" "xtime 0x92 = 0x3F" "xtime 0x93 = 0x3D"
  "xtime 0x94 = 0x33" "xtime 0x95 = 0x31" "xtime 0x96 = 0x37" "xtime 0x97 = 0x35"
  "xtime 0x98 = 0x2B" "xtime 0x99 = 0x29" "xtime 0x9A = 0x2F" "xtime 0x9B = 0x2D"
  "xtime 0x9C = 0x23" "xtime 0x9D = 0x21" "xtime 0x9E = 0x27" "xtime 0x9F = 0x25"
  by (simp_all add: xtime_def)

lemma xtime_tab5:
  "xtime 0xA0 = 0x5B" "xtime 0xA1 = 0x59" "xtime 0xA2 = 0x5F" "xtime 0xA3 = 0x5D"
  "xtime 0xA4 = 0x53" "xtime 0xA5 = 0x51" "xtime 0xA6 = 0x57" "xtime 0xA7 = 0x55"
  "xtime 0xA8 = 0x4B" "xtime 0xA9 = 0x49" "xtime 0xAA = 0x4F" "xtime 0xAB = 0x4D"
  "xtime 0xAC = 0x43" "xtime 0xAD = 0x41" "xtime 0xAE = 0x47" "xtime 0xAF = 0x45"
  "xtime 0xB0 = 0x7B" "xtime 0xB1 = 0x79" "xtime 0xB2 = 0x7F" "xtime 0xB3 = 0x7D"
  "xtime 0xB4 = 0x73" "xtime 0xB5 = 0x71" "xtime 0xB6 = 0x77" "xtime 0xB7 = 0x75"
  "xtime 0xB8 = 0x6B" "xtime 0xB9 = 0x69" "xtime 0xBA = 0x6F" "xtime 0xBB = 0x6D"
  "xtime 0xBC = 0x63" "xtime 0xBD = 0x61" "xtime 0xBE = 0x67" "xtime 0xBF = 0x65"
  by (simp_all add: xtime_def)

lemma xtime_tab6:
  "xtime 0xC0 = 0x9B" "xtime 0xC1 = 0x99" "xtime 0xC2 = 0x9F" "xtime 0xC3 = 0x9D"
  "xtime 0xC4 = 0x93" "xtime 0xC5 = 0x91" "xtime 0xC6 = 0x97" "xtime 0xC7 = 0x95"
  "xtime 0xC8 = 0x8B" "xtime 0xC9 = 0x89" "xtime 0xCA = 0x8F" "xtime 0xCB = 0x8D"
  "xtime 0xCC = 0x83" "xtime 0xCD = 0x81" "xtime 0xCE = 0x87" "xtime 0xCF = 0x85"
  "xtime 0xD0 = 0xBB" "xtime 0xD1 = 0xB9" "xtime 0xD2 = 0xBF" "xtime 0xD3 = 0xBD"
  "xtime 0xD4 = 0xB3" "xtime 0xD5 = 0xB1" "xtime 0xD6 = 0xB7" "xtime 0xD7 = 0xB5"
  "xtime 0xD8 = 0xAB" "xtime 0xD9 = 0xA9" "xtime 0xDA = 0xAF" "xtime 0xDB = 0xAD"
  "xtime 0xDC = 0xA3" "xtime 0xDD = 0xA1" "xtime 0xDE = 0xA7" "xtime 0xDF = 0xA5"
  by (simp_all add: xtime_def)

lemma xtime_tab7:
  "xtime 0xE0 = 0xDB" "xtime 0xE1 = 0xD9" "xtime 0xE2 = 0xDF" "xtime 0xE3 = 0xDD"
  "xtime 0xE4 = 0xD3" "xtime 0xE5 = 0xD1" "xtime 0xE6 = 0xD7" "xtime 0xE7 = 0xD5"
  "xtime 0xE8 = 0xCB" "xtime 0xE9 = 0xC9" "xtime 0xEA = 0xCF" "xtime 0xEB = 0xCD"
  "xtime 0xEC = 0xC3" "xtime 0xED = 0xC1" "xtime 0xEE = 0xC7" "xtime 0xEF = 0xC5"
  "xtime 0xF0 = 0xFB" "xtime 0xF1 = 0xF9" "xtime 0xF2 = 0xFF" "xtime 0xF3 = 0xFD"
  "xtime 0xF4 = 0xF3" "xtime 0xF5 = 0xF1" "xtime 0xF6 = 0xF7" "xtime 0xF7 = 0xF5"
  "xtime 0xF8 = 0xEB" "xtime 0xF9 = 0xE9" "xtime 0xFA = 0xEF" "xtime 0xFB = 0xED"
  "xtime 0xFC = 0xE3" "xtime 0xFD = 0xE1" "xtime 0xFE = 0xE7" "xtime 0xFF = 0xE5"
  by (simp_all add: xtime_def)

lemmas xtime_tab = xtime_tab0 xtime_tab1 xtime_tab2 xtime_tab3 xtime_tab4 xtime_tab5 xtime_tab6 xtime_tab7

lemma roundKeys:
  "keySchedule ROLLING_KEY rcon =
    [[0x12, 0x34, 0x56, 0x78, 0x9A, 0xBC, 0xDE, 0xF0, 0x11, 0x22, 0x33, 0x44, 0x55, 0x66, 0x77, 0x88],
     [0x20, 0xC1, 0x92, 0x84, 0xBA, 0x7D, 0x4C, 0x74, 0xAB, 0x5F, 0x7F, 0x30, 0xFE, 0x39, 0x08, 0xB8],
     [0x30, 0xF1, 0xFE, 0x3F, 0x8A, 0x8C, 0xB2, 0x4B, 0x21, 0xD3, 0xCD, 0x7B, 0xDF, 0xEA, 0xC5, 0xC3],
     [0xB3, 0x57, 0xD0, 0xA1, 0x39, 0xDB, 0x62, 0xEA, 0x18, 0x08, 0xAF, 0x91, 0xC7, 0xE2, 0x6A, 0x52],
     [0x23, 0x55, 0xD0, 0x67, 0x1A, 0x8E, 0xB2, 0x8D, 0x02, 0x86, 0x1D, 0x1C, 0xC5, 0x64, 0x77, 0x4E],
     [0x70, 0xA0, 0xFF, 0xC1, 0x6A, 0x2E, 0x4D, 0x4C, 0x68, 0xA8, 0x50, 0x50, 0xAD, 0xCC, 0x27, 0x1E],
     [0x1B, 0x6C, 0x8D, 0x54, 0x71, 0x42, 0xC0, 0x18, 0x19, 0xEA, 0x90, 0x48, 0xB4, 0x26, 0xB7, 0x56],
     [0xAC, 0xC5, 0x3C, 0xD9, 0xDD, 0x87, 0xFC, 0xC1, 0xC4, 0x6D, 0x6C, 0x89, 0x70, 0x4B, 0xDB, 0xDF],
     [0x9F, 0x7C, 0xA2, 0x88, 0x42, 0xFB, 0x5E, 0x49, 0x86, 0x96, 0x32, 0xC0, 0xF6, 0xDD, 0xE9, 0x1F],
     [0x45, 0x62, 0x62, 0xCA, 0x07, 0x99, 0x3C, 0x83, 0x81, 0x0F, 0x0E, 0x43, 0x77, 0xD2, 0xE7, 0x5C],
     [0xC6, 0xF6, 0x28, 0x3F, 0xC1, 0x6F, 0x14, 0xBC, 0x40, 0x60, 0x1A, 0xFF, 0x37, 0xB2, 0xFD, 0xA3]]"
  by (simp add: ROLLING_KEY_def rcon_def nextRoundKey_def Let_def subByte_tab)

lemma aes_round:
  "addRoundKey (mixColumns (shiftRows [s0, s1, s2, s3, s4, s5, s6, s7, s8, s9, s10, s11, s12, s13, s14, s15])) [k0, k1, k2, k3, k4, k5, k6, k7, k8, k9, k10, k11, k12, k13, k14, k15] =
     [(xtime s0 XOR (xtime s5 XOR s5) XOR s10 XOR s15) XOR k0,
      (s0 XOR xtime s5 XOR (xtime s10 XOR s10) XOR s15) XOR k1,
      (s0 XOR s5 XOR xtime s10 XOR (xtime s15 XOR s15)) XOR k2,
      ((xtime s0 XOR s0) XOR s5 XOR s10 XOR xtime s15) XOR k3,
      (xtime s4 XOR (xtime s9 XOR s9) XOR s14 XOR s3) XOR k4,
      (s4 XOR xtime s9 XOR (xtime s14 XOR s14) XOR s3) XOR k5,
      (s4 XOR s9 XOR xtime s14 XOR (xtime s3 XOR s3)) XOR k6,
      ((xtime s4 XOR s4) XOR s9 XOR s14 XOR xtime s3) XOR k7,
      (xtime s8 XOR (xtime s13 XOR s13) XOR s2 XOR s7) XOR k8,
      (s8 XOR xtime s13 XOR (xtime s2 XOR s2) XOR s7) XOR k9,
      (s8 XOR s13 XOR xtime s2 XOR (xtime s7 XOR s7)) XOR k10,
      ((xtime s8 XOR s8) XOR s13 XOR s2 XOR xtime s7) XOR k11,
      (xtime s12 XOR (xtime s1 XOR s1) XOR s6 XOR s11) XOR k12,
      (s12 XOR xtime s1 XOR (xtime s6 XOR s6) XOR s11) XOR k13,
      (s12 XOR s1 XOR xtime s6 XOR (xtime s11 XOR s11)) XOR k14,
      ((xtime s12 XOR s12) XOR s1 XOR s6 XOR xtime s11) XOR k15]"
  by (simp add: addRoundKey_def mixColumns_def shiftRows_def eval_nat_numeral)

lemma aes_final_round:
  "addRoundKey (shiftRows [s0, s1, s2, s3, s4, s5, s6, s7, s8, s9, s10, s11, s12, s13, s14, s15]) [k0, k1, k2, k3, k4, k5, k6, k7, k8, k9, k10, k11, k12, k13, k14, k15] =
     [s0 XOR k0,
      s5 XOR k1,
      s10 XOR k2,
      s15 XOR k3,
      s4 XOR k4,
      s9 XOR k5,
      s14 XOR k6,
      s3 XOR k7,
      s8 XOR k8,
      s13 XOR k9,
      s2 XOR k10,
      s7 XOR k11,
      s12 XOR k12,
      s1 XOR k13,
      s6 XOR k14,
      s11 XOR k15]"
  by (simp add: addRoundKey_def shiftRows_def)

lemma aes_first_key:
  "addRoundKey [s0, s1, s2, s3, s4, s5, s6, s7, s8, s9, s10, s11, s12, s13, s14, s15] [k0, k1, k2, k3, k4, k5, k6, k7, k8, k9, k10, k11, k12, k13, k14, k15] =
     [s0 XOR k0, s1 XOR k1, s2 XOR k2, s3 XOR k3, s4 XOR k4, s5 XOR k5, s6 XOR k6, s7 XOR k7, s8 XOR k8, s9 XOR k9, s10 XOR k10, s11 XOR k11, s12 XOR k12, s13 XOR k13, s14 XOR k14, s15 XOR k15]"
  by (simp add: addRoundKey_def)

lemma word_xor_num:
  "(numeral m :: 'a::len word) XOR numeral n =
     (case xor_num m n of None \<Rightarrow> 0 | Some q \<Rightarrow> numeral q)"
proof -
  have "(numeral m :: 'a word) XOR numeral n = word_of_int (numeral m XOR numeral n)"
    by simp
  also have "\<dots> = word_of_int (case xor_num m n of None \<Rightarrow> 0 | Some q \<Rightarrow> numeral q)"
    by (simp only: numeral_xor_num)
  also have "\<dots> = (case xor_num m n of None \<Rightarrow> 0 | Some q \<Rightarrow> numeral q)"
    by (simp split: option.split)
  finally show ?thesis .
qed

lemma word_xor_one:
  "(1 :: 'a::len word) XOR numeral n =
     (case xor_num num.One n of None \<Rightarrow> 0 | Some q \<Rightarrow> numeral q)"
  "(numeral m :: 'a::len word) XOR 1 =
     (case xor_num m num.One of None \<Rightarrow> 0 | Some q \<Rightarrow> numeral q)"
  "(1 :: 'a::len word) XOR 1 = 0"
  using word_xor_num [of num.One n, where 'a='a] word_xor_num [of m num.One, where 'a='a]
  by simp_all

lemmas xor_eval = word_xor_num word_xor_one xor.left_neutral xor.right_neutral
  xor_num.simps option.case option.map numeral_One

lemmas aes_eval = encryptBlock_def roundKeys list.case rounds.simps
  aes_first_key aes_round aes_final_round list.map subByte_tab xtime_tab xor_eval

lemma ucast_byte_of_nat: "(ucast (w::u32) :: byte) = of_nat (take_bit 8 (unat w))"
proof -
  have "(of_nat (take_bit 8 (unat w)) :: byte) = of_nat (unat w)"
    by (simp only: word_of_nat_eq_iff) simp
  also have "\<dots> = ucast w" by (rule of_nat_unat)
  finally show ?thesis by simp
qed

lemma unat_numeral_small:
  assumes "numeral k < (4294967296::nat)"
  shows "unat (numeral k :: u32) = numeral k"
proof -
  have "(numeral k :: nat) < 2 ^ 32" using assms by simp
  then have "take_bit 32 (numeral k :: nat) = numeral k"
    by (simp only: take_bit_nat_eq_self)
  moreover have "unat (numeral k :: u32) = take_bit 32 (numeral k :: nat)"
    by (simp only: unat_numeral take_bit_eq_mod) simp
  ultimately show ?thesis by (simp only:)
qed

lemma le_bytes_unat:
  "le_bytes w = [of_nat (take_bit 8 (unat w)), of_nat (take_bit 8 (drop_bit 8 (unat w))),
                 of_nat (take_bit 8 (drop_bit 16 (unat w))),
                 of_nat (take_bit 8 (drop_bit 24 (unat w)))]"
  using ucast_byte_of_nat [of w] ucast_byte_of_nat [of "drop_bit 8 w"]
    ucast_byte_of_nat [of "drop_bit 16 w"] ucast_byte_of_nat [of "drop_bit 24 w"]
  by (simp add: le_bytes_def upt_rec unat_drop_bit_eq)

lemma le_bytes_numeral:
  assumes "numeral k < (4294967296::nat)"
  shows "le_bytes (numeral k) =
           [of_nat (take_bit 8 (numeral k)), of_nat (take_bit 8 (drop_bit 8 (numeral k))),
            of_nat (take_bit 8 (drop_bit 16 (numeral k))),
            of_nat (take_bit 8 (drop_bit 24 (numeral k)))]"
  using le_bytes_unat [of "numeral k"] by (simp only: unat_numeral_small [OF assms])

lemma replicate_12: "replicate 12 x = [x, x, x, x, x, x, x, x, x, x, x, x]"
  by (simp add: eval_nat_numeral)

lemma le32_eval:
  "le32 [a, b, c, d] =
     ucast a OR push_bit 8 (ucast b OR push_bit 8 (ucast c OR push_bit 8 (ucast d OR push_bit 8 0)))"
  by (simp add: le32_def)

text \<open>The rolling codes of the counters 99 to 356, and of two counters 155 apart whose
  rolling codes coincide.\<close>

lemma rolling_codes_99:
  "generateRollingCode 99 = 0x2F5E76B8" "generateRollingCode 100 = 0x67F981F5"
  "generateRollingCode 101 = 0xF5A37DE8" "generateRollingCode 102 = 0x0FAF74E9"
  "generateRollingCode 103 = 0x5DDD8301" "generateRollingCode 104 = 0x4B599DC8"
  "generateRollingCode 105 = 0xCBF15776" "generateRollingCode 106 = 0x3F716097"
  "generateRollingCode 107 = 0x4B09DE2A" "generateRollingCode 108 = 0x188C4D2D"
  "generateRollingCode 109 = 0xDE98A659" "generateRollingCode 110 = 0xB26F3831"
  "generateRollingCode 111 = 0x03AFAEAB" "generateRollingCode 112 = 0xCF6ADD73"
  "generateRollingCode 113 = 0x9CB7DF51" "generateRollingCode 114 = 0x28F470CB"
  apply (simp_all add: generateRollingCode_def le_bytes_numeral replicate_12)
  apply (simp_all only: aes_eval)
  apply (simp_all add: le32_eval)
  done

lemma rolling_codes_115:
  "generateRollingCode 115 = 0xF63BBD03" "generateRollingCode 116 = 0xEDB5DADC"
  "generateRollingCode 117 = 0x6D9052B7" "generateRollingCode 118 = 0x7E0CF793"
  "generateRollingCode 119 = 0xE088AEC1" "generateRollingCode 120 = 0x35F2C34F"
  "generateRollingCode 121 = 0xF49014B2" "generateRollingCode 122 = 0x7B96B4FB"
  "generateRollingCode 123 = 0xEB27FAA5" "generateRollingCode 124 = 0x0CC25DD1"
  "generateRollingCode 125 = 0x6B024EDD" "generateRollingCode 126 = 0x02E868D1"
  "generateRollingCode 127 = 0xCE0C9B13" "generateRollingCode 128 = 0x3D00C2C3"
  "generateRollingCode 129 = 0x336B24B0" "generateRollingCode 130 = 0xB03C891C"
  apply (simp_all add: generateRollingCode_def le_bytes_numeral replicate_12)
  apply (simp_all only: aes_eval)
  apply (simp_all add: le32_eval)
  done

lemma rolling_codes_131:
  "generateRollingCode 131 = 0xB12C690C" "generateRollingCode 132 = 0x3B18E000"
  "generateRollingCode 133 = 0x57DA4416" "generateRollingCode 134 = 0x7BE2B4C5"
  "generateRollingCode 135 = 0xA139B45E" "generateRollingCode 136 = 0x5956C036"
  "generateRollingCode 137 = 0x420D2C39" "generateRollingCode 138 = 0x4DCC48BA"
  "generateRollingCode 139 = 0x1692B23F" "generateRollingCode 140 = 0x51A5012C"
  "generateRollingCode 141 = 0xBE74435D" "generateRollingCode 142 = 0xDB33E089"
  "generateRollingCode 143 = 0xF1B037B9" "generateRollingCode 144 = 0x7BAF82A6"
  "generateRollingCode 145 = 0x1EF24C7F" "generateRollingCode 146 = 0x8E41CDA0"
  apply (simp_all add: generateRollingCode_def le_bytes_numeral replicate_12)
  apply (simp_all only: aes_eval)
  apply (simp_all add: le32_eval)
  done

lemma rolling_codes_147:
  "generateRollingCode 147 = 0xD74558D9" "generateRollingCode 148 = 0x95A80BEC"
  "generateRollingCode 149 = 0xC4B55F13" "generateRollingCode 150 = 0x794BF27E"
  "generateRollingCode 151 = 0xBCDA893A" "generateRollingCode 152 = 0xB2F5F734"
  "generateRollingCode 153 = 0xE9ACC4A1" "generateRollingCode 154 = 0x0F631698"
  "generateRollingCode 155 = 0xAAA8B6A1" "generateRollingCode 156 = 0xC90E0A62"
  "generateRollingCode 157 = 0xCAEE2A3E" "generateRollingCode 158 = 0x421CF3F5"
  "generateRollingCode 159 = 0x0FB6B9E7" "generateRollingCode 160 = 0xEE71BC0A"
  "generateRollingCode 161 = 0x945A3C01" "generateRollingCode 162 = 0xBFA5AEDF"
  apply (simp_all add: generateRollingCode_def le_bytes_numeral replicate_12)
  apply (simp_all only: aes_eval)
  apply (simp_all add: le32_eval)
  done

lemma rolling_codes_163:
  "generateRollingCode 163 = 0x72613661" "generateRollingCode 164 = 0xE32894B8"
  "generateRollingCode 165 = 0x4C406B34" "generateRollingCode 166 = 0xC4A40CBF"
  "generateRollingCode 167 = 0xBC611D0C" "generateRollingCode 168 = 0x13EC08E2"
  "generateRollingCode 169 = 0x68FB5E37" "generateRollingCode 170 = 0xACC9C32D"
  "generateRollingCode 171 = 0x4AD4109F" "generateRollingCode 172 = 0xDE84AA91"
  "generateRollingCode 173 = 0x6D444473" "generateRollingCode 174 = 0x0D6AF9CF"
  "generateRollingCode 175 = 0xB04F4CED" "generateRollingCode 176 = 0x1AEB3FDE"
  "generateRollingCode 177 = 0xEA2075EF" "generateRollingCode 178 = 0x9650579A"
  apply (simp_all add: generateRollingCode_def le_bytes_numeral replicate_12)
  apply (simp_all only: aes_eval)
  apply (simp_all add: le32_eval)
  done

lemma rolling_codes_179:
  "generateRollingCode 179 = 0x8D2BD65E" "generateRollingCode 180 = 0x4835A428"
  "generateRollingCode 181 = 0x817889F8" "generateRollingCode 182 = 0x21F9C2A5"
  "generateRollingCode 183 = 0xA5B0E95C" "generateRollingCode 184 = 0xDE8A02DF"
  "generateRollingCode 185 = 0xFA084C7C" "generateRollingCode 186 = 0x3638A293"
  "generateRollingCode 187 = 0xAC9AC7EA" "generateRollingCode 188 = 0xAA1056E1"
  "generateRollingCode 189 = 0xAE72ECD7" "generateRollingCode 190 = 0xECB011D2"
  "generateRollingCode 191 = 0x597592A0" "generateRollingCode 192 = 0xD1AEBC38"
  "generateRollingCode 193 = 0xA1B24286" "generateRollingCode 194 = 0x49941CA5"
  apply (simp_all add: generateRollingCode_def le_bytes_numeral replicate_12)
  apply (simp_all only: aes_eval)
  apply (simp_all add: le32_eval)
  done

lemma rolling_codes_195:
  "generateRollingCode 195 = 0x385BDE22" "generateRollingCode 196 = 0x43FAEFC9"
  "generateRollingCode 197 = 0x843B3F2C" "generateRollingCode 198 = 0xA9F78303"
  "generateRollingCode 199 = 0x6DB0C5CC" "generateRollingCode 200 = 0xAE7F3501"
  "generateRollingCode 201 = 0xD964A9DD" "generateRollingCode 202 = 0xA4F684FD"
  "generateRollingCode 203 = 0x6F94188F" "generateRollingCode 204 = 0xF732A3C6"
  "generateRollingCode 205 = 0xDCD37269" "generateRollingCode 206 = 0x0C9B3EDD"
  "generateRollingCode 207 = 0xF5DF0C9D" "generateRollingCode 208 = 0x0C6369A9"
  "generateRollingCode 209 = 0x7DD14C79" "generateRollingCode 210 = 0x649B5CB6"
  apply (simp_all add: generateRollingCode_def le_bytes_numeral replicate_12)
  apply (simp_all only: aes_eval)
  apply (simp_all add: le32_eval)
  done

lemma rolling_codes_211:
  "generateRollingCode 211 = 0x0A847EEC" "generateRollingCode 212 = 0x2894F4BC"
  "generateRollingCode 213 = 0x08E4566A" "generateRollingCode 214 = 0xCC636953"
  "generateRollingCode 215 = 0x277C274C" "generateRollingCode 216 = 0x3DF06457"
  "generateRollingCode 217 = 0x9FD33D98" "generateRollingCode 218 = 0xAB111747"
  "generateRollingCode 219 = 0x0C6DA2AA" "generateRollingCode 220 = 0x7F79D11C"
  "generateRollingCode 221 = 0x87D10248" "generateRollingCode 222 = 0xEEAD228D"
  "generateRollingCode 223 = 0x8BAE67B5" "generateRollingCode 224 = 0xC0D63CF2"
  "generateRollingCode 225 = 0xE7E7FF64" "generateRollingCode 226 = 0x3057C7CF"
  apply (simp_all add: generateRollingCode_def le_bytes_numeral replicate_12)
  apply (simp_all only: aes_eval)
  apply (simp_all add: le32_eval)
  done

lemma rolling_codes_227:
  "generateRollingCode 227 = 0x194E69AD" "generateRollingCode 228 = 0x5FBA470D"
  "generateRollingCode 229 = 0xD2FC78D7" "generateRollingCode 230 = 0x5E4347E5"
  "generateRollingCode 231 = 0xB3FFE7E3" "generateRollingCode 232 = 0xE95813D7"
  "generateRollingCode 233 = 0x732242A5" "generateRollingCode 234 = 0x1B5E75AD"
  "generateRollingCode 235 = 0x42DC31EF" "generateRollingCode 236 = 0x3E506482"
  "generateRollingCode 237 = 0x699A74D1" "generateRollingCode 238 = 0x75CA08DA"
  "generateRollingCode 239 = 0xF24EDECC" "generateRollingCode 240 = 0x75EE4FF1"
  "generateRollingCode 241 = 0xD355EF69" "generateRollingCode 242 = 0xD449B783"
  apply (simp_all add: generateRollingCode_def le_bytes_numeral replicate_12)
  apply (simp_all only: aes_eval)
  apply (simp_all add: le32_eval)
  done

lemma rolling_codes_243:
  "generateRollingCode 243 = 0x2ED67ADF" "generateRollingCode 244 = 0xEA882540"
  "generateRollingCode 245 = 0xB40F7AE5" "generateRollingCode 246 = 0x040E4A84"
  "generateRollingCode 247 = 0xB4958482" "generateRollingCode 248 = 0xBA5C647A"
  "generateRollingCode 249 = 0xA1CE8332" "generateRollingCode 250 = 0x07B2481D"
  "generateRollingCode 251 = 0xF050F912" "generateRollingCode 252 = 0x6FD1759F"
  "generateRollingCode 253 = 0x845A7451" "generateRollingCode 254 = 0x7AA54FA2"
  "generateRollingCode 255 = 0x65E5DFDB" "generateRollingCode 256 = 0xA0D457A4"
  "generateRollingCode 257 = 0x4235438D" "generateRollingCode 258 = 0x1EF9BF2D"
  apply (simp_all add: generateRollingCode_def le_bytes_numeral replicate_12)
  apply (simp_all only: aes_eval)
  apply (simp_all add: le32_eval)
  done

lemma rolling_codes_259:
  "generateRollingCode 259 = 0xA7692044" "generateRollingCode 260 = 0x5DC9A363"
  "generateRollingCode 261 = 0xD3F45940" "generateRollingCode 262 = 0xBF3FC052"
  "generateRollingCode 263 = 0x728C8D2B" "generateRollingCode 264 = 0xC759FEC5"
  "generateRollingCode 265 = 0x69086357" "generateRollingCode 266 = 0x76FC8902"
  "generateRollingCode 267 = 0x9EEE7D74" "generateRollingCode 268 = 0xFB210DE3"
  "generateRollingCode 269 = 0x6A0BD0A8" "generateRollingCode 270 = 0x0E564D9B"
  "generateRollingCode 271 = 0x2C7F79DC" "generateRollingCode 272 = 0x756190B2"
  "generateRollingCode 273 = 0x26C5A46F" "generateRollingCode 274 = 0xEEF4AB09"
  apply (simp_all add: generateRollingCode_def le_bytes_numeral replicate_12)
  apply (simp_all only: aes_eval)
  apply (simp_all add: le32_eval)
  done

lemma rolling_codes_275:
  "generateRollingCode 275 = 0x4653F252" "generateRollingCode 276 = 0x706B5B46"
  "generateRollingCode 277 = 0xA47D35E7" "generateRollingCode 278 = 0x70FD7930"
  "generateRollingCode 279 = 0x1CCA3FBB" "generateRollingCode 280 = 0xA4908E33"
  "generateRollingCode 281 = 0x0263F05E" "generateRollingCode 282 = 0x15DB22A4"
  "generateRollingCode 283 = 0x6A0A1DFF" "generateRollingCode 284 = 0x1421330C"
  "generateRollingCode 285 = 0xE80F3366" "generateRollingCode 286 = 0x39CBA963"
  "generateRollingCode 287 = 0xAB2528CB" "generateRollingCode 288 = 0xDBC2D618"
  "generateRollingCode 289 = 0xA2C0B751" "generateRollingCode 290 = 0x4032FE0A"
  apply (simp_all add: generateRollingCode_def le_bytes_numeral replicate_12)
  apply (simp_all only: aes_eval)
  apply (simp_all add: le32_eval)
  done

lemma rolling_codes_291:
  "generateRollingCode 291 = 0x6F63DB97" "generateRollingCode 292 = 0x017E6B12"
  "generateRollingCode 293 = 0x1356B912" "generateRollingCode 294 = 0x28748004"
  "generateRollingCode 295 = 0x308A0FB9" "generateRollingCode 296 = 0xDC7E89CE"
  "generateRollingCode 297 = 0x0FC42836" "generateRollingCode 298 = 0x26195D2E"
  "generateRollingCode 299 = 0xFBCC6163" "generateRollingCode 300 = 0x9E06A898"
  "generateRollingCode 301 = 0x019E0EF0" "generateRollingCode 302 = 0x6FBFA2DF"
  "generateRollingCode 303 = 0x20401CFA" "generateRollingCode 304 = 0x99AF3363"
  "generateRollingCode 305 = 0x82920D66" "generateRollingCode 306 = 0xE08551A6"
  apply (simp_all add: generateRollingCode_def le_bytes_numeral replicate_12)
  apply (simp_all only: aes_eval)
  apply (simp_all add: le32_eval)
  done

lemma rolling_codes_307:
  "generateRollingCode 307 = 0x542F7496" "generateRollingCode 308 = 0x36FC3A10"
  "generateRollingCode 309 = 0x3194EB0B" "generateRollingCode 310 = 0xC00FC0EF"
  "generateRollingCode 311 = 0xDF41A436" "generateRollingCode 312 = 0xA0734373"
  "generateRollingCode 313 = 0xA53A09FB" "generateRollingCode 314 = 0x733D564F"
  "generateRollingCode 315 = 0x5BC25E27" "generateRollingCode 316 = 0xC202C6B9"
  "generateRollingCode 317 = 0xA6755A1D" "generateRollingCode 318 = 0xADF2DD41"
  "generateRollingCode 319 = 0x60CABE49" "generateRollingCode 320 = 0x58D24C56"
  "generateRollingCode 321 = 0x1F0B19D7" "generateRollingCode 322 = 0xD33E8FF2"
  apply (simp_all add: generateRollingCode_def le_bytes_numeral replicate_12)
  apply (simp_all only: aes_eval)
  apply (simp_all add: le32_eval)
  done

lemma rolling_codes_323:
  "generateRollingCode 323 = 0x54DEA094" "generateRollingCode 324 = 0xD3749495"
  "generateRollingCode 325 = 0xDA8D0AAD" "generateRollingCode 326 = 0xDCDCED3A"
  "generateRollingCode 327 = 0x54467977" "generateRollingCode 328 = 0x48A564F6"
  "generateRollingCode 329 = 0xDEAAEB56" "generateRollingCode 330 = 0xEAE8C0D0"
  "generateRollingCode 331 = 0x19D9690F" "generateRollingCode 332 = 0xE1F9A183"
  "generateRollingCode 333 = 0xADE1F1E1" "generateRollingCode 334 = 0x19A003EF"
  "generateRollingCode 335 = 0x3239C7A8" "generateRollingCode 336 = 0x4EED0B8E"
  "generateRollingCode 337 = 0x911335CB" "generateRollingCode 338 = 0xBFAF2F45"
  apply (simp_all add: generateRollingCode_def le_bytes_numeral replicate_12)
  apply (simp_all only: aes_eval)
  apply (simp_all add: le32_eval)
  done

lemma rolling_codes_339:
  "generateRollingCode 339 = 0x92B6ECA6" "generateRollingCode 340 = 0x9EEBFFB0"
  "generateRollingCode 341 = 0x87ECF64D" "generateRollingCode 342 = 0x56A18952"
  "generateRollingCode 343 = 0x3CC59366" "generateRollingCode 344 = 0x57D26EBD"
  "generateRollingCode 345 = 0x5BD028A7" "generateRollingCode 346 = 0x30F53E3B"
  "generateRollingCode 347 = 0x842E6F19" "generateRollingCode 348 = 0xA8F39E32"
  "generateRollingCode 349 = 0x7DB20AC3" "generateRollingCode 350 = 0x5984244B"
  "generateRollingCode 351 = 0x9F8D09B6" "generateRollingCode 352 = 0x3658FEE6"
  "generateRollingCode 353 = 0xB5FA7240" "generateRollingCode 354 = 0xF8074DBC"
  apply (simp_all add: generateRollingCode_def le_bytes_numeral replicate_12)
  apply (simp_all only: aes_eval)
  apply (simp_all add: le32_eval)
  done

lemma rolling_codes_355:
  "generateRollingCode 355 = 0x31DD102F" "generateRollingCode 356 = 0xF6852C91"
  apply (simp_all add: generateRollingCode_def le_bytes_numeral replicate_12)
  apply (simp_all only: aes_eval)
  apply (simp_all add: le32_eval)
  done

lemma rolling_codes_collision:
  "generateRollingCode 8633065 = 0x90C04ED9"
  "generateRollingCode 8633220 = 0x90C04ED9"
  apply (simp_all add: generateRollingCode_def le_bytes_numeral replicate_12)
  apply (simp_all only: aes_eval)
  apply (simp_all add: le32_eval)
  done

lemmas rolling_codes_window = rolling_codes_99 rolling_codes_115 rolling_codes_131 rolling_codes_147
  rolling_codes_163 rolling_codes_179 rolling_codes_195 rolling_codes_211
  rolling_codes_227 rolling_codes_243 rolling_codes_259 rolling_codes_275
  rolling_codes_291 rolling_codes_307 rolling_codes_323 rolling_codes_339
  rolling_codes_355

text \<open>The rolling codes of the last 256 counters below the 32-bit maximum.\<close>

lemma rolling_codes_top_0:
  "generateRollingCode 0xFFFFFF00 = 0xF7E70FB9" "generateRollingCode 0xFFFFFF01 = 0xEF97D66C"
  "generateRollingCode 0xFFFFFF02 = 0x73BC031F" "generateRollingCode 0xFFFFFF03 = 0x056A873C"
  "generateRollingCode 0xFFFFFF04 = 0x5C960D2E" "generateRollingCode 0xFFFFFF05 = 0xF00139BA"
  "generateRollingCode 0xFFFFFF06 = 0xE5CFC874" "generateRollingCode 0xFFFFFF07 = 0x91E18E07"
  "generateRollingCode 0xFFFFFF08 = 0xA970CB27" "generateRollingCode 0xFFFFFF09 = 0xA32351BD"
  "generateRollingCode 0xFFFFFF0A = 0x50E1F9D0" "generateRollingCode 0xFFFFFF0B = 0x00C1FFC0"
  "generateRollingCode 0xFFFFFF0C = 0xCBB49131" "generateRollingCode 0xFFFFFF0D = 0x1A76A640"
  "generateRollingCode 0xFFFFFF0E = 0xC57F90D0" "generateRollingCode 0xFFFFFF0F = 0xB9C1AB6F"
  apply (simp_all add: generateRollingCode_def le_bytes_numeral replicate_12)
  apply (simp_all only: aes_eval)
  apply (simp_all add: le32_eval)
  done

lemma rolling_codes_top_1:
  "generateRollingCode 0xFFFFFF10 = 0x1B886EFE" "generateRollingCode 0xFFFFFF11 = 0xA1393FD6"
  "generateRollingCode 0xFFFFFF12 = 0xD51F3923" "generateRollingCode 0xFFFFFF13 = 0xEC545609"
  "generateRollingCode 0xFFFFFF14 = 0x40BCEB2D" "generateRollingCode 0xFFFFFF15 = 0x796AF828"
  "generateRollingCode 0xFFFFFF16 = 0x255E9D43" "generateRollingCode 0xFFFFFF17 = 0xFAB3BBF2"
  "generateRollingCode 0xFFFFFF18 = 0xB5D99A6F" "generateRollingCode 0xFFFFFF19 = 0x64C0CE5F"
  "generateRollingCode 0xFFFFFF1A = 0x07159D40" "generateRollingCode 0xFFFFFF1B = 0x4A76C3BF"
  "generateRollingCode 0xFFFFFF1C = 0x912A95C0" "generateRollingCode 0xFFFFFF1D = 0x3BC661C2"
  "generateRollingCode 0xFFFFFF1E = 0xD063428F" "generateRollingCode 0xFFFFFF1F = 0xDFB37270"
  apply (simp_all add: generateRollingCode_def le_bytes_numeral replicate_12)
  apply (simp_all only: aes_eval)
  apply (simp_all add: le32_eval)
  done

lemma rolling_codes_top_2:
  "generateRollingCode 0xFFFFFF20 = 0x86B43275" "generateRollingCode 0xFFFFFF21 = 0x8092EDFF"
  "generateRollingCode 0xFFFFFF22 = 0x86F0CCE4" "generateRollingCode 0xFFFFFF23 = 0x379297A5"
  "generateRollingCode 0xFFFFFF24 = 0x20DC3BFE" "generateRollingCode 0xFFFFFF25 = 0xA5E284F5"
  "generateRollingCode 0xFFFFFF26 = 0xF64E150E" "generateRollingCode 0xFFFFFF27 = 0x3F33916F"
  "generateRollingCode 0xFFFFFF28 = 0xC80DFFE4" "generateRollingCode 0xFFFFFF29 = 0x0AF2C3BC"
  "generateRollingCode 0xFFFFFF2A = 0x51A9B62F" "generateRollingCode 0xFFFFFF2B = 0x94A948A3"
  "generateRollingCode 0xFFFFFF2C = 0xCC2E1046" "generateRollingCode 0xFFFFFF2D = 0x0895FC8E"
  "generateRollingCode 0xFFFFFF2E = 0x105F5E9B" "generateRollingCode 0xFFFFFF2F = 0x4BE4AD1C"
  apply (simp_all add: generateRollingCode_def le_bytes_numeral replicate_12)
  apply (simp_all only: aes_eval)
  apply (simp_all add: le32_eval)
  done

lemma rolling_codes_top_3:
  "generateRollingCode 0xFFFFFF30 = 0xA3CF4EF9" "generateRollingCode 0xFFFFFF31 = 0x8AED5DC7"
  "generateRollingCode 0xFFFFFF32 = 0x4066540D" "generateRollingCode 0xFFFFFF33 = 0xA7428570"
  "generateRollingCode 0xFFFFFF34 = 0x24DF753E" "generateRollingCode 0xFFFFFF35 = 0xB7711A9F"
  "generateRollingCode 0xFFFFFF36 = 0x7B398E72" "generateRollingCode 0xFFFFFF37 = 0xFE24D29B"
  "generateRollingCode 0xFFFFFF38 = 0x2F99E392" "generateRollingCode 0xFFFFFF39 = 0x72F8F7A0"
  "generateRollingCode 0xFFFFFF3A = 0x722A827E" "generateRollingCode 0xFFFFFF3B = 0xE3F6821A"
  "generateRollingCode 0xFFFFFF3C = 0x1766CA84" "generateRollingCode 0xFFFFFF3D = 0xF25833A4"
  "generateRollingCode 0xFFFFFF3E = 0x128841A7" "generateRollingCode 0xFFFFFF3F = 0xBC2B9FD0"
  apply (simp_all add: generateRollingCode_def le_bytes_numeral replicate_12)
  apply (simp_all only: aes_eval)
  apply (simp_all add: le32_eval)
  done

lemma rolling_codes_top_4:
  "generateRollingCode 0xFFFFFF40 = 0x89EDBBC1" "generateRollingCode 0xFFFFFF41 = 0xFF43982C"
  "generateRollingCode 0xFFFFFF42 = 0xA4F4594A" "generateRollingCode 0xFFFFFF43 = 0xF7E175E3"
  "generateRollingCode 0xFFFFFF44 = 0x5A07FC6C" "generateRollingCode 0xFFFFFF45 = 0x40DC196E"
  "generateRollingCode 0xFFFFFF46 = 0x6F5AD6B9" "generateRollingCode 0xFFFFFF47 = 0x1EC01D1A"
  "generateRollingCode 0xFFFFFF48 = 0x28ED1E9B" "generateRollingCode 0xFFFFFF49 = 0xC774E979"
  "generateRollingCode 0xFFFFFF4A = 0xE539DAA7" "generateRollingCode 0xFFFFFF4B = 0x6F160793"
  "generateRollingCode 0xFFFFFF4C = 0x2336D088" "generateRollingCode 0xFFFFFF4D = 0x2208D3CD"
  "generateRollingCode 0xFFFFFF4E = 0xEC54C7F7" "generateRollingCode 0xFFFFFF4F = 0x6632956E"
  apply (simp_all add: generateRollingCode_def le_bytes_numeral replicate_12)
  apply (simp_all only: aes_eval)
  apply (simp_all add: le32_eval)
  done

lemma rolling_codes_top_5:
  "generateRollingCode 0xFFFFFF50 = 0xAA3683B1" "generateRollingCode 0xFFFFFF51 = 0x4163BE94"
  "generateRollingCode 0xFFFFFF52 = 0xC53C341F" "generateRollingCode 0xFFFFFF53 = 0x87C47CB7"
  "generateRollingCode 0xFFFFFF54 = 0x69FF5E7D" "generateRollingCode 0xFFFFFF55 = 0x585581F1"
  "generateRollingCode 0xFFFFFF56 = 0xB4905151" "generateRollingCode 0xFFFFFF57 = 0x86D0F3FA"
  "generateRollingCode 0xFFFFFF58 = 0xA2DC0AE6" "generateRollingCode 0xFFFFFF59 = 0x22E48775"
  "generateRollingCode 0xFFFFFF5A = 0xEE7E8DB5" "generateRollingCode 0xFFFFFF5B = 0xE62DB81D"
  "generateRollingCode 0xFFFFFF5C = 0xE6F28765" "generateRollingCode 0xFFFFFF5D = 0xB82C558C"
  "generateRollingCode 0xFFFFFF5E = 0x0BDF2BC5" "generateRollingCode 0xFFFFFF5F = 0xE4E5F9A7"
  apply (simp_all add: generateRollingCode_def le_bytes_numeral replicate_12)
  apply (simp_all only: aes_eval)
  apply (simp_all add: le32_eval)
  done

lemma rolling_codes_top_6:
  "generateRollingCode 0xFFFFFF60 = 0x6D3A9DF6" "generateRollingCode 0xFFFFFF61 = 0xC3E0314B"
  "generateRollingCode 0xFFFFFF62 = 0x36F3002D" "generateRollingCode 0xFFFFFF63 = 0x19F1445B"
  "generateRollingCode 0xFFFFFF64 = 0x1BACDF70" "generateRollingCode 0xFFFFFF65 = 0xF4BA5112"
  "generateRollingCode 0xFFFFFF66 = 0xD9E417D9" "generateRollingCode 0xFFFFFF67 = 0x938BD148"
  "generateRollingCode 0xFFFFFF68 = 0xC7F8C4DC" "generateRollingCode 0xFFFFFF69 = 0xDBCFEBF2"
  "generateRollingCode 0xFFFFFF6A = 0x78A0EA1F" "generateRollingCode 0xFFFFFF6B = 0x70811952"
  "generateRollingCode 0xFFFFFF6C = 0xAE97E5C7" "generateRollingCode 0xFFFFFF6D = 0x99FC34DF"
  "generateRollingCode 0xFFFFFF6E = 0xC6160DD7" "generateRollingCode 0xFFFFFF6F = 0xB2C31E31"
  apply (simp_all add: generateRollingCode_def le_bytes_numeral replicate_12)
  apply (simp_all only: aes_eval)
  apply (simp_all add: le32_eval)
  done

lemma rolling_codes_top_7:
  "generateRollingCode 0xFFFFFF70 = 0x28248B46" "generateRollingCode 0xFFFFFF71 = 0xC6799F32"
  "generateRollingCode 0xFFFFFF72 = 0x80215C03" "generateRollingCode 0xFFFFFF73 = 0x8F679027"
  "generateRollingCode 0xFFFFFF74 = 0xBD22C0FC" "generateRollingCode 0xFFFFFF75 = 0x9D5F0C7D"
  "generateRollingCode 0xFFFFFF76 = 0x5A60FEF7" "generateRollingCode 0xFFFFFF77 = 0x689F88B1"
  "generateRollingCode 0xFFFFFF78 = 0x31A27311" "generateRollingCode 0xFFFFFF79 = 0x21A14081"
  "generateRollingCode 0xFFFFFF7A = 0x76F76F5C" "generateRollingCode 0xFFFFFF7B = 0xAE590A49"
  "generateRollingCode 0xFFFFFF7C = 0x20C24B2B" "generateRollingCode 0xFFFFFF7D = 0x7C689435"
  "generateRollingCode 0xFFFFFF7E = 0x1F03176A" "generateRollingCode 0xFFFFFF7F = 0x341EAF7C"
  apply (simp_all add: generateRollingCode_def le_bytes_numeral replicate_12)
  apply (simp_all only: aes_eval)
  apply (simp_all add: le32_eval)
  done

lemma rolling_codes_top_8:
  "generateRollingCode 0xFFFFFF80 = 0x35D3D676" "generateRollingCode 0xFFFFFF81 = 0x331DB097"
  "generateRollingCode 0xFFFFFF82 = 0xE362126D" "generateRollingCode 0xFFFFFF83 = 0x8FDA707E"
  "generateRollingCode 0xFFFFFF84 = 0x41183426" "generateRollingCode 0xFFFFFF85 = 0x83250F07"
  "generateRollingCode 0xFFFFFF86 = 0xE9D7849F" "generateRollingCode 0xFFFFFF87 = 0x3B7B9673"
  "generateRollingCode 0xFFFFFF88 = 0x25386AAB" "generateRollingCode 0xFFFFFF89 = 0x8C4EA0A7"
  "generateRollingCode 0xFFFFFF8A = 0x3A0141D4" "generateRollingCode 0xFFFFFF8B = 0x8EE8E54B"
  "generateRollingCode 0xFFFFFF8C = 0x07F74270" "generateRollingCode 0xFFFFFF8D = 0x7A49C5BD"
  "generateRollingCode 0xFFFFFF8E = 0x5273DB92" "generateRollingCode 0xFFFFFF8F = 0x7DBF36FB"
  apply (simp_all add: generateRollingCode_def le_bytes_numeral replicate_12)
  apply (simp_all only: aes_eval)
  apply (simp_all add: le32_eval)
  done

lemma rolling_codes_top_9:
  "generateRollingCode 0xFFFFFF90 = 0x05961DEB" "generateRollingCode 0xFFFFFF91 = 0xEB5D72A3"
  "generateRollingCode 0xFFFFFF92 = 0x2ACA8F0A" "generateRollingCode 0xFFFFFF93 = 0x734FBE41"
  "generateRollingCode 0xFFFFFF94 = 0x0802AF7B" "generateRollingCode 0xFFFFFF95 = 0x16C60A01"
  "generateRollingCode 0xFFFFFF96 = 0x9A07D7D9" "generateRollingCode 0xFFFFFF97 = 0xFB40BA5F"
  "generateRollingCode 0xFFFFFF98 = 0x568FE0C6" "generateRollingCode 0xFFFFFF99 = 0x016D8822"
  "generateRollingCode 0xFFFFFF9A = 0x41A0B9A9" "generateRollingCode 0xFFFFFF9B = 0x82562DC8"
  "generateRollingCode 0xFFFFFF9C = 0x1E3AE554" "generateRollingCode 0xFFFFFF9D = 0x772EAA75"
  "generateRollingCode 0xFFFFFF9E = 0x47DD35DD" "generateRollingCode 0xFFFFFF9F = 0x84130B09"
  apply (simp_all add: generateRollingCode_def le_bytes_numeral replicate_12)
  apply (simp_all only: aes_eval)
  apply (simp_all add: le32_eval)
  done

lemma rolling_codes_top_10:
  "generateRollingCode 0xFFFFFFA0 = 0x8DFF5818" "generateRollingCode 0xFFFFFFA1 = 0x6912D378"
  "generateRollingCode 0xFFFFFFA2 = 0x45E6774F" "generateRollingCode 0xFFFFFFA3 = 0xCA924A08"
  "generateRollingCode 0xFFFFFFA4 = 0x562C3C01" "generateRollingCode 0xFFFFFFA5 = 0x8C455FA4"
  "generateRollingCode 0xFFFFFFA6 = 0xCF945F6E" "generateRollingCode 0xFFFFFFA7 = 0x78111C62"
  "generateRollingCode 0xFFFFFFA8 = 0xC78FD1F0" "generateRollingCode 0xFFFFFFA9 = 0x1FC8E8F4"
  "generateRollingCode 0xFFFFFFAA = 0x798A106A" "generateRollingCode 0xFFFFFFAB = 0x42D923E2"
  "generateRollingCode 0xFFFFFFAC = 0xFAC4F9C1" "generateRollingCode 0xFFFFFFAD = 0x83ED10B6"
  "generateRollingCode 0xFFFFFFAE = 0x139A10AB" "generateRollingCode 0xFFFFFFAF = 0x3D68979B"
  apply (simp_all add: generateRollingCode_def le_bytes_numeral replicate_12)
  apply (simp_all only: aes_eval)
  apply (simp_all add: le32_eval)
  done

lemma rolling_codes_top_11:
  "generateRollingCode 0xFFFFFFB0 = 0x3B540979" "generateRollingCode 0xFFFFFFB1 = 0x44905BE2"
  "generateRollingCode 0xFFFFFFB2 = 0x1B11FCC4" "generateRollingCode 0xFFFFFFB3 = 0x584A37CC"
  "generateRollingCode 0xFFFFFFB4 = 0x616F740D" "generateRollingCode 0xFFFFFFB5 = 0x5252E3E6"
  "generateRollingCode 0xFFFFFFB6 = 0x6268A380" "generateRollingCode 0xFFFFFFB7 = 0x15E0826C"
  "generateRollingCode 0xFFFFFFB8 = 0x8AC6EE4E" "generateRollingCode 0xFFFFFFB9 = 0x61A1E9FF"
  "generateRollingCode 0xFFFFFFBA = 0xCECF6A28" "generateRollingCode 0xFFFFFFBB = 0x667A766C"
  "generateRollingCode 0xFFFFFFBC = 0xE806E30D" "generateRollingCode 0xFFFFFFBD = 0x31DE5E1A"
  "generateRollingCode 0xFFFFFFBE = 0x39E84472" "generateRollingCode 0xFFFFFFBF = 0x87F32DF7"
  apply (simp_all add: generateRollingCode_def le_bytes_numeral replicate_12)
  apply (simp_all only: aes_eval)
  apply (simp_all add: le32_eval)
  done

lemma rolling_codes_top_12:
  "generateRollingCode 0xFFFFFFC0 = 0xEA3E918B" "generateRollingCode 0xFFFFFFC1 = 0x0EAB9168"
  "generateRollingCode 0xFFFFFFC2 = 0x74D24E3B" "generateRollingCode 0xFFFFFFC3 = 0x684FF96E"
  "generateRollingCode 0xFFFFFFC4 = 0x816AEDB2" "generateRollingCode 0xFFFFFFC5 = 0xF548083C"
  "generateRollingCode 0xFFFFFFC6 = 0x43046203" "generateRollingCode 0xFFFFFFC7 = 0xC76052A7"
  "generateRollingCode 0xFFFFFFC8 = 0x2AAF1C21" "generateRollingCode 0xFFFFFFC9 = 0xBE5CD83B"
  "generateRollingCode 0xFFFFFFCA = 0xCB253BFE" "generateRollingCode 0xFFFFFFCB = 0x33CE3698"
  "generateRollingCode 0xFFFFFFCC = 0x2F4C0DB9" "generateRollingCode 0xFFFFFFCD = 0x6427F94A"
  "generateRollingCode 0xFFFFFFCE = 0x99578AA9" "generateRollingCode 0xFFFFFFCF = 0x262D9333"
  apply (simp_all add: generateRollingCode_def le_bytes_numeral replicate_12)
  apply (simp_all only: aes_eval)
  apply (simp_all add: le32_eval)
  done

lemma rolling_codes_top_13:
  "generateRollingCode 0xFFFFFFD0 = 0xD749F1D6" "generateRollingCode 0xFFFFFFD1 = 0x73D540EC"
  "generateRollingCode 0xFFFFFFD2 = 0x4DA90812" "generateRollingCode 0xFFFFFFD3 = 0xACD64D84"
  "generateRollingCode 0xFFFFFFD4 = 0x9FD24040" "generateRollingCode 0xFFFFFFD5 = 0xDF0FB972"
  "generateRollingCode 0xFFFFFFD6 = 0x24961800" "generateRollingCode 0xFFFFFFD7 = 0xF18A8F1A"
  "generateRollingCode 0xFFFFFFD8 = 0xEB78D7D1" "generateRollingCode 0xFFFFFFD9 = 0x66225887"
  "generateRollingCode 0xFFFFFFDA = 0xC043F082" "generateRollingCode 0xFFFFFFDB = 0x2CD41FB6"
  "generateRollingCode 0xFFFFFFDC = 0xE3559C89" "generateRollingCode 0xFFFFFFDD = 0x78A19AD9"
  "generateRollingCode 0xFFFFFFDE = 0x192B4C72" "generateRollingCode 0xFFFFFFDF = 0x2AD738F8"
  apply (simp_all add: generateRollingCode_def le_bytes_numeral replicate_12)
  apply (simp_all only: aes_eval)
  apply (simp_all add: le32_eval)
  done

lemma rolling_codes_top_14:
  "generateRollingCode 0xFFFFFFE0 = 0x21D475A3" "generateRollingCode 0xFFFFFFE1 = 0x11BD7516"
  "generateRollingCode 0xFFFFFFE2 = 0x2CC2C9C9" "generateRollingCode 0xFFFFFFE3 = 0x8B20A162"
  "generateRollingCode 0xFFFFFFE4 = 0x136F78C3" "generateRollingCode 0xFFFFFFE5 = 0xC2465B8C"
  "generateRollingCode 0xFFFFFFE6 = 0x9D0411A4" "generateRollingCode 0xFFFFFFE7 = 0xD5CB4831"
  "generateRollingCode 0xFFFFFFE8 = 0xA4F2845E" "generateRollingCode 0xFFFFFFE9 = 0x674FE487"
  "generateRollingCode 0xFFFFFFEA = 0x26E53049" "generateRollingCode 0xFFFFFFEB = 0x4BB96DBA"
  "generateRollingCode 0xFFFFFFEC = 0x2BA87877" "generateRollingCode 0xFFFFFFED = 0x9EDD7555"
  "generateRollingCode 0xFFFFFFEE = 0x3093E362" "generateRollingCode 0xFFFFFFEF = 0x685B0D95"
  apply (simp_all add: generateRollingCode_def le_bytes_numeral replicate_12)
  apply (simp_all only: aes_eval)
  apply (simp_all add: le32_eval)
  done

lemma rolling_codes_top_15:
  "generateRollingCode 0xFFFFFFF0 = 0x146986C7" "generateRollingCode 0xFFFFFFF1 = 0x5E3F14CE"
  "generateRollingCode 0xFFFFFFF2 = 0x9E1FB255" "generateRollingCode 0xFFFFFFF3 = 0xC54AA2DE"
  "generateRollingCode 0xFFFFFFF4 = 0x6B2D66A8" "generateRollingCode 0xFFFFFFF5 = 0x86F050D6"
  "generateRollingCode 0xFFFFFFF6 = 0xF57FCE4B" "generateRollingCode 0xFFFFFFF7 = 0x0B783B23"
  "generateRollingCode 0xFFFFFFF8 = 0x52B7F551" "generateRollingCode 0xFFFFFFF9 = 0xC78AE3D8"
  "generateRollingCode 0xFFFFFFFA = 0xF8076F76" "generateRollingCode 0xFFFFFFFB = 0x93050440"
  "generateRollingCode 0xFFFFFFFC = 0xD9501024" "generateRollingCode 0xFFFFFFFD = 0x668AE8C0"
  "generateRollingCode 0xFFFFFFFE = 0x7EEC260D" "generateRollingCode 0xFFFFFFFF = 0x70C38895"
  apply (simp_all add: generateRollingCode_def le_bytes_numeral replicate_12)
  apply (simp_all only: aes_eval)
  apply (simp_all add: le32_eval)
  done

lemmas rolling_codes_top = rolling_codes_top_0 rolling_codes_top_1 rolling_codes_top_2 rolling_codes_top_3
  rolling_codes_top_4 rolling_codes_top_5 rolling_codes_top_6 rolling_codes_top_7
  rolling_codes_top_8 rolling_codes_top_9 rolling_codes_top_10 rolling_codes_top_11
  rolling_codes_top_12 rolling_codes_top_13 rolling_codes_top_14 rolling_codes_top_15

section \<open>Windows without a match\<close>

lemma noneMatch_iff:
  "noneMatch n c rc \<longleftrightarrow> (\<forall>k<n. generateRollingCode (c + of_nat k) \<noteq> rc)"
proof (induction n arbitrary: c)
  case 0
  show ?case by simp
next
  case (Suc n)
  have "(\<forall>k<Suc n. generateRollingCode (c + of_nat k) \<noteq> rc) \<longleftrightarrow>
        generateRollingCode c \<noteq> rc \<and> (\<forall>k<n. generateRollingCode (c + of_nat (Suc k)) \<noteq> rc)"
    by (auto simp: less_Suc_eq_0_disj)
  also have "\<dots> \<longleftrightarrow> generateRollingCode c \<noteq> rc \<and>
        (\<forall>k<n. generateRollingCode (c + 1 + of_nat k) \<noteq> rc)"
    by (simp add: add.assoc)
  finally show ?case using Suc.IH [of "c + 1"] by simp
qed

lemma noneMatch_numeral:
  "noneMatch (numeral n) c rc =
     (generateRollingCode c \<noteq> rc \<and> noneMatch (pred_numeral n) (c + 1) rc)"
  by (simp add: numeral_eq_Suc)

lemma window_100_99: "noneMatch 256 100 (generateRollingCode 99)"
  by (simp add: noneMatch_numeral rolling_codes_window)

lemma window_100_356: "noneMatch 256 100 (generateRollingCode 356)"
  by (simp add: noneMatch_numeral rolling_codes_window)

lemma window_100_105: "noneMatch 5 100 (generateRollingCode 105)"
  by (simp add: noneMatch_numeral rolling_codes_window)

lemma window_top: "noneMatch 255 0xFFFFFF00 (generateRollingCode 0xFFFFFFFF)"
  by (simp add: noneMatch_numeral rolling_codes_top)

section \<open>A key fob in step with the receiver\<close>

lemma validate_press:
  assumes "lastRollingCounter s = c"
  shows "validatePacket 0
           \<lparr>carID = CAR_ID, keyfobID = KEYFOB_ID, action = ACTION_LOCK,
            rollingCode = generateRollingCode c, totp = generateTOTP 0\<rparr> s =
         rollingCodeValid 0
           \<lparr>carID = CAR_ID, keyfobID = KEYFOB_ID, action = ACTION_LOCK,
            rollingCode = generateRollingCode c, totp = generateTOTP 0\<rparr> c
           (s\<lparr>aesCalls := aesCalls s + 1\<rparr>)"
  using validatePacket_first_match
    [of "\<lparr>carID = CAR_ID, keyfobID = KEYFOB_ID, action = ACTION_LOCK,
            rollingCode = generateRollingCode c, totp = generateTOTP 0\<rparr>" 0 s 0] assms
  by (simp add: ROLLING_WINDOW_def)

lemma press_step:
  "validations (press c # calls)
     \<lparr>lastRollingCounter = c, lastSavedCounter = d, eeprom = e, eepromCommits = n,
      txLog = t, locked = l, aesCalls = a, hmacCalls = h\<rparr> =
   validations calls
     (if c + 1 - d \<ge> 10
      then \<lparr>lastRollingCounter = c + 1, lastSavedCounter = c + 1, eeprom = c + 1,
            eepromCommits = n + 1, txLog = t, locked = l, aesCalls = a + 1, hmacCalls = h + 1\<rparr>
      else \<lparr>lastRollingCounter = c + 1, lastSavedCounter = d, eeprom = e,
            eepromCommits = n, txLog = t, locked = l, aesCalls = a + 1, hmacCalls = h + 1\<rparr>)"
  by (simp add: press_def validate_press rollingCodeValid_def Let_def EEPROM_SAVE_INTERVAL_def)

lemma press_valid:
  assumes "lastRollingCounter s = c"
  shows "valid (fst (validatePacket (fst (press c)) (snd (press c)) s))"
  using validate_press [OF assms]
  by (simp add: press_def rollingCodeValid_verdict)

section \<open>Rolling-code match without a valid time code\<close>

text \<open>
  C1 (amended). For every packet with the paired identities whose rolling code is that of
  some candidate in the window but whose time code is neither the current epoch's nor the
  previous epoch's, the verdict is the time-code mismatch, one resynchronisation message
  is sent, and the counter is set to one above the first matching candidate: it differs
  from its old value, the matched counter is consumed.
\<close>

theorem time_code_mismatch_consumes_counter:
  assumes "carID pkt = CAR_ID" and "keyfobID pkt = KEYFOB_ID"
    and "k < ROLLING_WINDOW"
    and "rollingCode pkt = generateRollingCode (lastRollingCounter s + of_nat k)"
    and "totp pkt \<noteq> generateTOTP ((ms div 1000) div 30)"
    and "totp pkt \<noteq> generateTOTP ((ms div 1000) div 30 - 1)"
  shows "fst (validatePacket ms pkt s) = TotpMismatch \<and>
         (\<exists>j\<le>k. rollingCode pkt = generateRollingCode (lastRollingCounter s + of_nat j) \<and>
                (\<forall>i<j. rollingCode pkt \<noteq> generateRollingCode (lastRollingCounter s + of_nat i)) \<and>
                lastRollingCounter (snd (validatePacket ms pkt s)) = lastRollingCounter s + of_nat j + 1) \<and>
         lastRollingCounter (snd (validatePacket ms pkt s)) \<noteq> lastRollingCounter s \<and>
         txLog (snd (validatePacket ms pkt s)) = txLog s @ [0]"
proof -
  obtain j where j: "j \<le> k"
    "generateRollingCode (lastRollingCounter s + of_nat j) = rollingCode pkt"
    "\<And>i. i < j \<Longrightarrow> generateRollingCode (lastRollingCounter s + of_nat i) \<noteq> rollingCode pkt"
    using first_match_exists [of k "lastRollingCounter s" "rollingCode pkt"] assms(3,4) by metis
  have jw: "j < ROLLING_WINDOW" using j(1) assms(3) by simp
  have v: "validatePacket ms pkt s =
             rollingCodeValid ms pkt (lastRollingCounter s + of_nat j)
               (s\<lparr>aesCalls := aesCalls s + Suc j\<rparr>)"
    using validatePacket_first_match [OF assms(1,2) jw j(2)] j(3) by blast
  have m: "fst (validatePacket ms pkt s) = TotpMismatch"
    using assms(5,6) by (simp add: v rollingCodeValid_verdict)
  have c: "lastRollingCounter (snd (validatePacket ms pkt s)) = lastRollingCounter s + of_nat j + 1"
    by (simp add: v rollingCodeValid_counter)
  have "of_nat (Suc j) \<noteq> (0::u32)"
    using jw by (intro word_of_nat_neq_0) (simp_all add: ROLLING_WINDOW_def)
  then have ne: "lastRollingCounter s + of_nat j + 1 \<noteq> lastRollingCounter s"
    by (simp add: add.assoc add.commute)
  have t: "txLog (snd (validatePacket ms pkt s)) = txLog s @ [0]"
    using m by (simp add: v rollingCodeValid_txLog)
  show ?thesis using m c ne t j by (metis)
qed

text \<open>
  C1 as stated fails: with the counter at 100, the rolling code of counter 105 and a time
  code that no epoch produces, the packet is rejected for its time code, and the counter
  has moved to 106.
\<close>

theorem time_code_mismatch_counterexample:
  "validatePacket 0
     \<lparr>carID = CAR_ID, keyfobID = KEYFOB_ID, action = ACTION_UNLOCK,
      rollingCode = generateRollingCode 105, totp = 1000000\<rparr>
     \<lparr>lastRollingCounter = 100, lastSavedCounter = 100, eeprom = 100, eepromCommits = 0,
      txLog = [], locked = True, aesCalls = 0, hmacCalls = 0\<rparr>
   = (TotpMismatch,
      \<lparr>lastRollingCounter = 106, lastSavedCounter = 100, eeprom = 100, eepromCommits = 0,
       txLog = [0], locked = True, aesCalls = 6, hmacCalls = 2\<rparr>)"
proof -
  let ?pkt = "\<lparr>carID = CAR_ID, keyfobID = KEYFOB_ID, action = ACTION_UNLOCK,
      rollingCode = generateRollingCode 105, totp = 1000000\<rparr>"
  let ?s = "\<lparr>lastRollingCounter = 100, lastSavedCounter = 100, eeprom = 100, eepromCommits = 0,
      txLog = [], locked = True, aesCalls = 0, hmacCalls = 0\<rparr>"
  have first: "\<And>j. j < 5 \<Longrightarrow>
      generateRollingCode (lastRollingCounter ?s + of_nat j) \<noteq> rollingCode ?pkt"
    using window_100_105 by (simp add: noneMatch_iff)
  have t: "generateTOTP e \<noteq> 1000000" for e
    using generateTOTP_bound [of e] by auto
  have "validatePacket 0 ?pkt ?s =
          rollingCodeValid 0 ?pkt (lastRollingCounter ?s + of_nat 5)
            (?s\<lparr>aesCalls := aesCalls ?s + Suc 5\<rparr>)"
    using first by (intro validatePacket_first_match) (simp_all add: ROLLING_WINDOW_def)
  then show ?thesis
    using t [of 0] t [of "0 - 1"]
    by (simp add: rollingCodeValid_def Let_def EEPROM_SAVE_INTERVAL_def)
qed

theorem time_code_mismatch_consumes_counter_witness:
  "fst (validatePacket 0
     \<lparr>carID = CAR_ID, keyfobID = KEYFOB_ID, action = ACTION_UNLOCK,
      rollingCode = generateRollingCode 105, totp = 1000000\<rparr>
     \<lparr>lastRollingCounter = 100, lastSavedCounter = 100, eeprom = 100, eepromCommits = 0,
      txLog = [], locked = True, aesCalls = 0, hmacCalls = 0\<rparr>) = TotpMismatch \<and>
   lastRollingCounter (snd (validatePacket 0
     \<lparr>carID = CAR_ID, keyfobID = KEYFOB_ID, action = ACTION_UNLOCK,
      rollingCode = generateRollingCode 105, totp = 1000000\<rparr>
     \<lparr>lastRollingCounter = 100, lastSavedCounter = 100, eeprom = 100, eepromCommits = 0,
      txLog = [], locked = True, aesCalls = 0, hmacCalls = 0\<rparr>)) = 106 \<and>
   txLog (snd (validatePacket 0
     \<lparr>carID = CAR_ID, keyfobID = KEYFOB_ID, action = ACTION_UNLOCK,
      rollingCode = generateRollingCode 105, totp = 1000000\<rparr>
     \<lparr>lastRollingCounter = 100, lastSavedCounter = 100, eeprom = 100, eepromCommits = 0,
      txLog = [], locked = True, aesCalls = 0, hmacCalls = 0\<rparr>)) = [0]"
proof -
  let ?pkt = "\<lparr>carID = CAR_ID, keyfobID = KEYFOB_ID, action = ACTION_UNLOCK,
      rollingCode = generateRollingCode 105, totp = 1000000\<rparr>"
  let ?s = "\<lparr>lastRollingCounter = 100, lastSavedCounter = 100, eeprom = 100, eepromCommits = 0,
      txLog = [], locked = True, aesCalls = 0, hmacCalls = 0\<rparr>"
  have t: "generateTOTP e \<noteq> 1000000" for e
    using generateTOTP_bound [of e] by auto
  have first: "\<And>j. j < 5 \<Longrightarrow> generateRollingCode (100 + of_nat j) \<noteq> generateRollingCode 105"
    using window_100_105 by (simp add: noneMatch_iff)
  have res: "fst (validatePacket 0 ?pkt ?s) = TotpMismatch \<and>
         (\<exists>j\<le>5. rollingCode ?pkt = generateRollingCode (lastRollingCounter ?s + of_nat j) \<and>
                (\<forall>i<j. rollingCode ?pkt \<noteq> generateRollingCode (lastRollingCounter ?s + of_nat i)) \<and>
                lastRollingCounter (snd (validatePacket 0 ?pkt ?s)) = lastRollingCounter ?s + of_nat j + 1) \<and>
         lastRollingCounter (snd (validatePacket 0 ?pkt ?s)) \<noteq> lastRollingCounter ?s \<and>
         txLog (snd (validatePacket 0 ?pkt ?s)) = txLog ?s @ [0]"
    using t [of 0] t [of "0 - 1"]
    by (intro time_code_mismatch_consumes_counter) (simp_all add: ROLLING_WINDOW_def)
  then obtain j where j: "j \<le> 5" "generateRollingCode 105 = generateRollingCode (100 + of_nat j)"
    "lastRollingCounter (snd (validatePacket 0 ?pkt ?s)) = 100 + of_nat j + 1"
    by auto
  have "j = 5" using j(1,2) first [of j] by (cases "j < 5") auto
  with j(3) res show ?thesis by simp
qed

section \<open>Acceptance within the window\<close>

text \<open>
  C2 (amended). With the counter at \<open>L\<close> and \<open>k < 256\<close>, a packet with the paired
  identities, the rolling code of \<open>L + k\<close> (32-bit wrapping) that no earlier candidate
  \<open>L + j\<close>, \<open>j < k\<close>, shares, and the time code of the current or the previous epoch is
  accepted, and the counter becomes \<open>L + k + 1\<close>.
\<close>

theorem window_acceptance_first_match:
  assumes "carID pkt = CAR_ID" and "keyfobID pkt = KEYFOB_ID"
    and "k < ROLLING_WINDOW"
    and "rollingCode pkt = generateRollingCode (lastRollingCounter s + of_nat k)"
    and "\<forall>j<k. generateRollingCode (lastRollingCounter s + of_nat j) \<noteq> rollingCode pkt"
    and "totp pkt = generateTOTP ((ms div 1000) div 30) \<or>
         totp pkt = generateTOTP ((ms div 1000) div 30 - 1)"
  shows "valid (fst (validatePacket ms pkt s)) \<and>
         lastRollingCounter (snd (validatePacket ms pkt s)) = lastRollingCounter s + of_nat k + 1"
proof -
  have v: "validatePacket ms pkt s =
             rollingCodeValid ms pkt (lastRollingCounter s + of_nat k)
               (s\<lparr>aesCalls := aesCalls s + Suc k\<rparr>)"
    using validatePacket_first_match [OF assms(1,2,3)] assms(4,5) by simp
  show ?thesis
    using assms(6) by (auto simp: v rollingCodeValid_verdict rollingCodeValid_counter)
qed

text \<open>
  C2 as stated fails: the counters 8633065 and 8633220 have the same rolling code
  \<open>0x90C04ED9\<close> under the rolling-code key. With the counter at \<open>L = 8633065\<close>, the
  packet that carries the rolling code of \<open>L + 155\<close> and a valid time code is accepted at
  offset 0, and the counter becomes \<open>L + 1\<close>, not \<open>L + 156\<close>.
\<close>

theorem window_acceptance_counterexample:
  "valid (fst (validatePacket 0
     \<lparr>carID = CAR_ID, keyfobID = KEYFOB_ID, action = ACTION_UNLOCK,
      rollingCode = generateRollingCode (8633065 + 155), totp = generateTOTP 0\<rparr>
     \<lparr>lastRollingCounter = 8633065, lastSavedCounter = 8633065, eeprom = 8633065,
      eepromCommits = 0, txLog = [], locked = True, aesCalls = 0, hmacCalls = 0\<rparr>)) \<and>
   lastRollingCounter (snd (validatePacket 0
     \<lparr>carID = CAR_ID, keyfobID = KEYFOB_ID, action = ACTION_UNLOCK,
      rollingCode = generateRollingCode (8633065 + 155), totp = generateTOTP 0\<rparr>
     \<lparr>lastRollingCounter = 8633065, lastSavedCounter = 8633065, eeprom = 8633065,
      eepromCommits = 0, txLog = [], locked = True, aesCalls = 0, hmacCalls = 0\<rparr>))
     = 8633065 + 1 \<and>
   (8633065 + 1 :: u32) \<noteq> 8633065 + 155 + 1"
proof -
  let ?pkt = "\<lparr>carID = CAR_ID, keyfobID = KEYFOB_ID, action = ACTION_UNLOCK,
      rollingCode = generateRollingCode (8633065 + 155), totp = generateTOTP 0\<rparr>"
  let ?s = "\<lparr>lastRollingCounter = 8633065, lastSavedCounter = 8633065, eeprom = 8633065,
      eepromCommits = 0, txLog = [], locked = True, aesCalls = 0, hmacCalls = 0\<rparr>"
  have "validatePacket 0 ?pkt ?s =
          rollingCodeValid 0 ?pkt (lastRollingCounter ?s + of_nat 0)
            (?s\<lparr>aesCalls := aesCalls ?s + Suc 0\<rparr>)"
    by (intro validatePacket_first_match)
       (simp_all add: ROLLING_WINDOW_def rolling_codes_collision)
  then show ?thesis
    by (simp add: rollingCodeValid_def Let_def)
qed

theorem window_acceptance_first_match_witness:
  "valid (fst (validatePacket 0
     \<lparr>carID = CAR_ID, keyfobID = KEYFOB_ID, action = ACTION_UNLOCK,
      rollingCode = generateRollingCode (100 + 5), totp = generateTOTP 0\<rparr>
     \<lparr>lastRollingCounter = 100, lastSavedCounter = 100, eeprom = 100, eepromCommits = 0,
      txLog = [], locked = True, aesCalls = 0, hmacCalls = 0\<rparr>)) \<and>
   lastRollingCounter (snd (validatePacket 0
     \<lparr>carID = CAR_ID, keyfobID = KEYFOB_ID, action = ACTION_UNLOCK,
      rollingCode = generateRollingCode (100 + 5), totp = generateTOTP 0\<rparr>
     \<lparr>lastRollingCounter = 100, lastSavedCounter = 100, eeprom = 100, eepromCommits = 0,
      txLog = [], locked = True, aesCalls = 0, hmacCalls = 0\<rparr>)) = 106"
proof -
  have first: "\<forall>j<5. generateRollingCode (100 + of_nat j) \<noteq> generateRollingCode 105"
    using window_100_105 by (simp add: noneMatch_iff)
  show ?thesis
    using first
      window_acceptance_first_match
        [of "\<lparr>carID = CAR_ID, keyfobID = KEYFOB_ID, action = ACTION_UNLOCK,
              rollingCode = generateRollingCode (100 + 5), totp = generateTOTP 0\<rparr>"
            5
            "\<lparr>lastRollingCounter = 100, lastSavedCounter = 100, eeprom = 100, eepromCommits = 0,
              txLog = [], locked = True, aesCalls = 0, hmacCalls = 0\<rparr>"
            0]
    by (simp add: ROLLING_WINDOW_def)
qed

section \<open>Outside the window\<close>

text \<open>
  C3. With the counter at \<open>L\<close>, a packet with the paired identities whose rolling code is
  that of \<open>L - 1\<close> or of \<open>L + 256\<close>, and equals the rolling code of no \<open>L + k\<close> with
  \<open>k < 256\<close>, is rejected as not in the window; the counter is unchanged and nothing is
  sent: the state only records the 256 cipher calls.
\<close>

theorem window_exhausted_rejected:
  assumes "carID pkt = CAR_ID" and "keyfobID pkt = KEYFOB_ID"
    and "rollingCode pkt = generateRollingCode (lastRollingCounter s - 1) \<or>
         rollingCode pkt = generateRollingCode (lastRollingCounter s + 256)"
    and "\<forall>k<ROLLING_WINDOW. generateRollingCode (lastRollingCounter s + of_nat k) \<noteq> rollingCode pkt"
  shows "fst (validatePacket ms pkt s) = NotInWindow \<and>
         lastRollingCounter (snd (validatePacket ms pkt s)) = lastRollingCounter s \<and>
         txLog (snd (validatePacket ms pkt s)) = txLog s \<and>
         snd (validatePacket ms pkt s) = s\<lparr>aesCalls := aesCalls s + ROLLING_WINDOW\<rparr>"
  using validatePacket_exhausted [OF assms(1,2), of s ms] assms(4) by simp

theorem window_exhausted_rejected_witness:
  "validatePacket 0
     \<lparr>carID = CAR_ID, keyfobID = KEYFOB_ID, action = ACTION_UNLOCK,
      rollingCode = generateRollingCode (100 - 1), totp = generateTOTP 0\<rparr>
     \<lparr>lastRollingCounter = 100, lastSavedCounter = 100, eeprom = 100, eepromCommits = 0,
      txLog = [], locked = True, aesCalls = 0, hmacCalls = 0\<rparr>
   = (NotInWindow,
      \<lparr>lastRollingCounter = 100, lastSavedCounter = 100, eeprom = 100, eepromCommits = 0,
       txLog = [], locked = True, aesCalls = 256, hmacCalls = 0\<rparr>) \<and>
   validatePacket 0
     \<lparr>carID = CAR_ID, keyfobID = KEYFOB_ID, action = ACTION_UNLOCK,
      rollingCode = generateRollingCode (100 + 256), totp = generateTOTP 0\<rparr>
     \<lparr>lastRollingCounter = 100, lastSavedCounter = 100, eeprom = 100, eepromCommits = 0,
      txLog = [], locked = True, aesCalls = 0, hmacCalls = 0\<rparr>
   = (NotInWindow,
      \<lparr>lastRollingCounter = 100, lastSavedCounter = 100, eeprom = 100, eepromCommits = 0,
       txLog = [], locked = True, aesCalls = 256, hmacCalls = 0\<rparr>)"
proof -
  let ?s = "\<lparr>lastRollingCounter = 100, lastSavedCounter = 100, eeprom = 100, eepromCommits = 0,
      txLog = [], locked = True, aesCalls = 0, hmacCalls = 0\<rparr>"
  have below: "\<forall>k<256. generateRollingCode (100 + of_nat k) \<noteq> generateRollingCode 99"
    using window_100_99 by (simp add: noneMatch_iff)
  have above: "\<forall>k<256. generateRollingCode (100 + of_nat k) \<noteq> generateRollingCode 356"
    using window_100_356 by (simp add: noneMatch_iff)
  have a: "snd (validatePacket 0
       \<lparr>carID = CAR_ID, keyfobID = KEYFOB_ID, action = ACTION_UNLOCK,
        rollingCode = generateRollingCode (100 - 1), totp = generateTOTP 0\<rparr> ?s) =
         ?s\<lparr>aesCalls := aesCalls ?s + ROLLING_WINDOW\<rparr> \<and>
     fst (validatePacket 0
       \<lparr>carID = CAR_ID, keyfobID = KEYFOB_ID, action = ACTION_UNLOCK,
        rollingCode = generateRollingCode (100 - 1), totp = generateTOTP 0\<rparr> ?s) = NotInWindow"
    using below
      window_exhausted_rejected
        [of "\<lparr>carID = CAR_ID, keyfobID = KEYFOB_ID, action = ACTION_UNLOCK,
              rollingCode = generateRollingCode (100 - 1), totp = generateTOTP 0\<rparr>" ?s 0]
    by (simp add: ROLLING_WINDOW_def)
  have b: "snd (validatePacket 0
       \<lparr>carID = CAR_ID, keyfobID = KEYFOB_ID, action = ACTION_UNLOCK,
        rollingCode = generateRollingCode (100 + 256), totp = generateTOTP 0\<rparr> ?s) =
         ?s\<lparr>aesCalls := aesCalls ?s + ROLLING_WINDOW\<rparr> \<and>
     fst (validatePacket 0
       \<lparr>carID = CAR_ID, keyfobID = KEYFOB_ID, action = ACTION_UNLOCK,
        rollingCode = generateRollingCode (100 + 256), totp = generateTOTP 0\<rparr> ?s) = NotInWindow"
    using above
      window_exhausted_rejected
        [of "\<lparr>carID = CAR_ID, keyfobID = KEYFOB_ID, action = ACTION_UNLOCK,
              rollingCode = generateRollingCode (100 + 256), totp = generateTOTP 0\<rparr>" ?s 0]
    by (simp add: ROLLING_WINDOW_def)
  show ?thesis
    using a b by (simp add: ROLLING_WINDOW_def prod_eq_iff)
qed

section \<open>The construction of the time code\<close>

text \<open>
  C4. For every epoch the time code is below 1,000,000 and is what the specification
  describes: the HMAC-SHA-256 digest (32 bytes) of the 8-byte big-endian epoch under the
  time-code secret, read at the offset given by the low nibble of its last byte as a
  big-endian 32-bit value with the top bit cleared, reduced modulo 1,000,000.
\<close>

theorem time_code_construction:
  "generateTOTP epoch < 1000000 \<and> generateTOTP epoch = timeCodeSpec epoch"
proof
  show "generateTOTP epoch < 1000000" by (rule generateTOTP_bound)
next
  let ?h = "hmac_sha256 TOTP_SECRET (be_bytes 8 (ucast epoch :: 64 word))"
  have len: "length ?h = 32" by (rule length_hmac_sha256)
  then have lst: "last ?h = ?h ! 31" by (simp add: last_conv_nth length_greater_0_conv [symmetric] del: length_greater_0_conv)
  have ofs: "unat (?h ! 31 AND 0x0F) < 16" by (simp add: low_nibble)
  show "generateTOTP epoch = timeCodeSpec epoch"
    unfolding generateTOTP_def timeCodeSpec_def Let_def fillMsg_be lst
    using four_bytes_at [OF len ofs] be32_four
    by (simp add: low_nibble)
qed

section \<open>Epoch tolerance\<close>

text \<open>
  C5. For a packet with the paired identities whose rolling code matches within the
  window, with \<open>E\<close> the epoch of the validator's clock: the time code of \<open>E - 1\<close> is
  accepted, and the time code of \<open>E - 2\<close>, when it differs from those of \<open>E\<close> and
  \<open>E - 1\<close>, is rejected as a time-code mismatch.
\<close>

theorem epoch_tolerance:
  assumes "carID pkt = CAR_ID" and "keyfobID pkt = KEYFOB_ID"
    and "k < ROLLING_WINDOW"
    and "rollingCode pkt = generateRollingCode (lastRollingCounter s + of_nat k)"
  shows "(totp pkt = generateTOTP ((ms div 1000) div 30 - 1)
            \<longrightarrow> valid (fst (validatePacket ms pkt s))) \<and>
         (totp pkt = generateTOTP ((ms div 1000) div 30 - 2) \<and>
          generateTOTP ((ms div 1000) div 30 - 2) \<noteq> generateTOTP ((ms div 1000) div 30) \<and>
          generateTOTP ((ms div 1000) div 30 - 2) \<noteq> generateTOTP ((ms div 1000) div 30 - 1)
            \<longrightarrow> fst (validatePacket ms pkt s) = TotpMismatch \<and>
                \<not> valid (fst (validatePacket ms pkt s)))"
proof -
  obtain j where j: "j \<le> k"
    "generateRollingCode (lastRollingCounter s + of_nat j) = rollingCode pkt"
    "\<And>i. i < j \<Longrightarrow> generateRollingCode (lastRollingCounter s + of_nat i) \<noteq> rollingCode pkt"
    using first_match_exists [of k "lastRollingCounter s" "rollingCode pkt"] assms(3,4) by metis
  have jw: "j < ROLLING_WINDOW" using j(1) assms(3) by simp
  have v: "validatePacket ms pkt s =
             rollingCodeValid ms pkt (lastRollingCounter s + of_nat j)
               (s\<lparr>aesCalls := aesCalls s + Suc j\<rparr>)"
    using validatePacket_first_match [OF assms(1,2) jw j(2)] j(3) by blast
  show ?thesis by (simp add: v rollingCodeValid_verdict)
qed

section \<open>Coalescing the writes of the counter\<close>

text \<open>
  C6. A validation writes the counter to the store only when the new counter is at least
  \<open>EEPROM_SAVE_INTERVAL = 10\<close> above the last persisted value. Starting with the counter
  equal to the last persisted value, ten consecutive accepted validations that each
  advance the counter by one leave the number of writes unchanged after each of the
  first nine, and the tenth makes exactly one write, of the counter plus ten.
\<close>

theorem persistence_coalescing:
  assumes "lastRollingCounter s0 = lastSavedCounter s0"
    and "length calls = 10"
    and "\<forall>i<10. valid (fst (validatePacket (fst (calls ! i)) (snd (calls ! i))
                              (validations (take i calls) s0))) \<and>
                lastRollingCounter (validations (take (Suc i) calls) s0) =
                  lastRollingCounter (validations (take i calls) s0) + 1"
  shows "(\<forall>i<10. eepromCommits (validations (take i calls) s0) = eepromCommits s0) \<and>
         eepromCommits (validations calls s0) = eepromCommits s0 + 1 \<and>
         eeprom (validations calls s0) = lastRollingCounter s0 + 10 \<and>
         (\<forall>ms pkt s. eepromCommits (snd (validatePacket ms pkt s)) \<noteq> eepromCommits s \<longrightarrow>
            lastRollingCounter (snd (validatePacket ms pkt s)) - lastSavedCounter s
              \<ge> EEPROM_SAVE_INTERVAL)"
proof -
  let ?S = "\<lambda>i. validations (take i calls) s0"
  have step: "?S (Suc i) = snd (validatePacket (fst (calls ! i)) (snd (calls ! i)) (?S i))"
    if "i < 10" for i
    using that assms(2) by (simp add: validations_take_Suc)
  have adv: "lastRollingCounter (?S (Suc i)) = lastRollingCounter (?S i) + 1" if "i < 10" for i
    using that assms(3) by blast
  have inv: "i < 10 \<Longrightarrow> lastRollingCounter (?S i) = lastRollingCounter s0 + of_nat i \<and>
             lastSavedCounter (?S i) = lastSavedCounter s0 \<and>
             eepromCommits (?S i) = eepromCommits s0 \<and> eeprom (?S i) = eeprom s0" for i
  proof (induction i)
    case 0
    show ?case by simp
  next
    case (Suc i)
    then have i: "i < 10" and IH: "lastRollingCounter (?S i) = lastRollingCounter s0 + of_nat i"
      "lastSavedCounter (?S i) = lastSavedCounter s0" "eepromCommits (?S i) = eepromCommits s0"
      "eeprom (?S i) = eeprom s0"
      by simp_all
    have c: "lastRollingCounter (?S (Suc i)) = lastRollingCounter s0 + of_nat (Suc i)"
      using adv [OF i] IH(1) by (simp add: add.assoc add.commute)
    have "unat (of_nat (Suc i) :: u32) = Suc i"
      using Suc.prems by (intro of_nat_inverse) simp_all
    then have small: "\<not> (of_nat (Suc i) :: u32) \<ge> EEPROM_SAVE_INTERVAL"
      using Suc.prems by (simp add: EEPROM_SAVE_INTERVAL_def word_le_nat_alt del: of_nat_Suc)
    have d: "lastRollingCounter (?S (Suc i)) - lastSavedCounter (?S i) = of_nat (Suc i)"
      using c IH(2) assms(1) by simp
    show ?case
      using validatePacket_persistence [of "fst (calls ! i)" "snd (calls ! i)" "?S i"]
        small c IH
      unfolding step [OF i, symmetric] d
      by (simp del: of_nat_Suc split: if_splits)
  qed
  have nine: "lastRollingCounter (?S 9) = lastRollingCounter s0 + 9"
    "lastSavedCounter (?S 9) = lastSavedCounter s0" "eepromCommits (?S 9) = eepromCommits s0"
    using inv [of 9] by simp_all
  have ten: "?S 10 = validations calls s0" using assms(2) by simp
  have c10: "lastRollingCounter (?S 10) = lastRollingCounter s0 + 10"
    using adv [of 9] nine(1) by (simp add: add.assoc)
  have s10: "?S 10 = snd (validatePacket (fst (calls ! 9)) (snd (calls ! 9)) (?S 9))"
    using step [of 9] by simp
  have d10: "lastRollingCounter (?S 10) - lastSavedCounter (?S 9) = 10"
    using c10 nine(2) assms(1) by simp
  have ne10: "lastRollingCounter (?S 10) \<noteq> lastRollingCounter (?S 9)"
    using c10 nine(1) by simp
  have fin: "eepromCommits (?S 10) = eepromCommits s0 + 1 \<and> eeprom (?S 10) = lastRollingCounter s0 + 10"
    using validatePacket_persistence [of "fst (calls ! 9)" "snd (calls ! 9)" "?S 9"] ne10 nine c10
    unfolding s10 [symmetric] d10
    by (simp add: EEPROM_SAVE_INTERVAL_def)
  have only: "\<forall>ms pkt s. eepromCommits (snd (validatePacket ms pkt s)) \<noteq> eepromCommits s \<longrightarrow>
            lastRollingCounter (snd (validatePacket ms pkt s)) - lastSavedCounter s
              \<ge> EEPROM_SAVE_INTERVAL"
    using validatePacket_persistence by (metis (no_types, lifting))
  show ?thesis using inv fin only unfolding ten by blast
qed

theorem persistence_coalescing_witness:
  "eepromCommits (validations (take 9 [press 100, press 101, press 102, press 103, press 104,
        press 105, press 106, press 107, press 108, press 109])
      \<lparr>lastRollingCounter = 100, lastSavedCounter = 100, eeprom = 100, eepromCommits = 0,
       txLog = [], locked = True, aesCalls = 0, hmacCalls = 0\<rparr>) = 0 \<and>
   eepromCommits (validations [press 100, press 101, press 102, press 103, press 104,
        press 105, press 106, press 107, press 108, press 109]
      \<lparr>lastRollingCounter = 100, lastSavedCounter = 100, eeprom = 100, eepromCommits = 0,
       txLog = [], locked = True, aesCalls = 0, hmacCalls = 0\<rparr>) = 1 \<and>
   eeprom (validations [press 100, press 101, press 102, press 103, press 104,
        press 105, press 106, press 107, press 108, press 109]
      \<lparr>lastRollingCounter = 100, lastSavedCounter = 100, eeprom = 100, eepromCommits = 0,
       txLog = [], locked = True, aesCalls = 0, hmacCalls = 0\<rparr>) = 110"
proof -
  let ?calls = "[press 100, press 101, press 102, press 103, press 104,
        press 105, press 106, press 107, press 108, press 109]"
  let ?s = "\<lparr>lastRollingCounter = 100, lastSavedCounter = 100, eeprom = 100, eepromCommits = 0,
       txLog = [], locked = True, aesCalls = 0, hmacCalls = 0\<rparr>"
  have hyp: "\<forall>i<10. valid (fst (validatePacket (fst (?calls ! i)) (snd (?calls ! i))
                              (validations (take i ?calls) ?s))) \<and>
                lastRollingCounter (validations (take (Suc i) ?calls) ?s) =
                  lastRollingCounter (validations (take i ?calls) ?s) + 1"
  proof (intro allI impI)
    fix i :: nat assume "i < 10"
    then have "i = 0 \<or> i = 1 \<or> i = 2 \<or> i = 3 \<or> i = 4 \<or> i = 5 \<or> i = 6 \<or> i = 7
      \<or> i = 8 \<or> i = 9" by arith
    then show "valid (fst (validatePacket (fst (?calls ! i)) (snd (?calls ! i))
                              (validations (take i ?calls) ?s))) \<and>
                lastRollingCounter (validations (take (Suc i) ?calls) ?s) =
                  lastRollingCounter (validations (take i ?calls) ?s) + 1"
      by (elim disjE) (simp_all add: press_step press_valid eval_nat_numeral word_le_nat_alt)
  qed
  show ?thesis
    using persistence_coalescing [of ?s ?calls] hyp
    by (simp add: press_step word_le_nat_alt)
qed

section \<open>Start-up\<close>

text \<open>
  C7. At start-up a loaded counter equal to the erased value \<open>0xFFFFFFFF\<close> or above
  \<open>0xFFFFFF00\<close> (the guard band below the 32-bit maximum) is reset to zero and written back
  at once, by one put/commit that does not wait for the save interval; any other loaded
  value is used as it is and nothing is written.
\<close>

theorem setup_counter_recovery:
  "snd (setupCar r s0) =
     (if eeprom s0 = 0xFFFFFFFF \<or> eeprom s0 > 0xFFFFFF00
      then s0\<lparr>lastRollingCounter := 0, lastSavedCounter := 0, eeprom := 0,
              eepromCommits := eepromCommits s0 + 1, locked := True\<rparr>
      else s0\<lparr>lastRollingCounter := eeprom s0, lastSavedCounter := eeprom s0,
              locked := True\<rparr>)"
  by (simp add: setupCar_def lockCar_def Let_def)

section \<open>Monotonicity of the counter\<close>

text \<open>
  C8 (amended). Start-up leaves the last persisted value equal to the counter, at most
  \<open>0xFFFFFF00\<close>. From every state in which the last persisted value is at most the
  counter and the counter is at most \<open>0xFFFFFEFF\<close> (so that no candidate of the window
  wraps around), a validation call leaves the counter at least as large as it was and the
  last persisted value at most the counter.
\<close>

theorem counter_monotone_below_wrap:
  "lastSavedCounter (snd (setupCar r s0)) = lastRollingCounter (snd (setupCar r s0)) \<and>
   lastRollingCounter (snd (setupCar r s0)) \<le> 0xFFFFFF00 \<and>
   (lastSavedCounter s \<le> lastRollingCounter s \<and> lastRollingCounter s \<le> 0xFFFFFEFF \<longrightarrow>
      lastRollingCounter s \<le> lastRollingCounter (snd (validatePacket ms pkt s)) \<and>
      lastSavedCounter (snd (validatePacket ms pkt s))
        \<le> lastRollingCounter (snd (validatePacket ms pkt s)))"
proof (intro conjI impI)
  show "lastSavedCounter (snd (setupCar r s0)) = lastRollingCounter (snd (setupCar r s0))"
    by (simp add: setupCar_def Let_def)
  show "lastRollingCounter (snd (setupCar r s0)) \<le> 0xFFFFFF00"
    by (simp add: setupCar_def Let_def lockCar_def not_less)
next
  assume a: "lastSavedCounter s \<le> lastRollingCounter s \<and> lastRollingCounter s \<le> 0xFFFFFEFF"
  consider (id) "validatePacket ms pkt s = (InvalidID, s)"
    | (no) "validatePacket ms pkt s = (NotInWindow, s\<lparr>aesCalls := aesCalls s + ROLLING_WINDOW\<rparr>)"
    | (match) j where "j < ROLLING_WINDOW"
        "validatePacket ms pkt s =
           rollingCodeValid ms pkt (lastRollingCounter s + of_nat j)
             (s\<lparr>aesCalls := aesCalls s + Suc j\<rparr>)"
    using validatePacket_cases [of ms pkt s] by blast
  then have "lastRollingCounter s \<le> lastRollingCounter (snd (validatePacket ms pkt s)) \<and>
      lastSavedCounter (snd (validatePacket ms pkt s))
        \<le> lastRollingCounter (snd (validatePacket ms pkt s))"
  proof cases
    case id
    then show ?thesis using a by simp
  next
    case no
    then show ?thesis using a by simp
  next
    case match
    have u: "unat (lastRollingCounter s + of_nat j + 1) = unat (lastRollingCounter s) + Suc j"
      using a match(1) by (intro unat_counter_advance) simp_all
    then have up: "lastRollingCounter s \<le> lastRollingCounter s + of_nat j + 1"
      by (simp add: word_le_nat_alt)
    with a have "lastSavedCounter s \<le> lastRollingCounter s + of_nat j + 1"
      by (meson order_trans)
    with up show ?thesis
      by (simp add: match(2) rollingCodeValid_counter rollingCodeValid_persist)
  qed
  then show "lastRollingCounter s \<le> lastRollingCounter (snd (validatePacket ms pkt s))"
    and "lastSavedCounter (snd (validatePacket ms pkt s))
        \<le> lastRollingCounter (snd (validatePacket ms pkt s))"
    by simp_all
qed

text \<open>
  C8 as stated fails. A store that holds \<open>0xFFFFFF00\<close> passes the start-up check, so the
  state below is reachable; the packet with the rolling code of counter \<open>0xFFFFFFFF\<close>
  (offset 255) and the current time code is accepted, and the counter wraps from
  \<open>0xFFFFFF00\<close> to 0.
\<close>

theorem counter_wraps_counterexample:
  "reachable
     \<lparr>lastRollingCounter = 0xFFFFFF00, lastSavedCounter = 0xFFFFFF00, eeprom = 0xFFFFFF00,
      eepromCommits = 0, txLog = [], locked = True, aesCalls = 0, hmacCalls = 0\<rparr> \<and>
   validatePacket 0
     \<lparr>carID = CAR_ID, keyfobID = KEYFOB_ID, action = ACTION_UNLOCK,
      rollingCode = generateRollingCode 0xFFFFFFFF, totp = generateTOTP 0\<rparr>
     \<lparr>lastRollingCounter = 0xFFFFFF00, lastSavedCounter = 0xFFFFFF00, eeprom = 0xFFFFFF00,
      eepromCommits = 0, txLog = [], locked = True, aesCalls = 0, hmacCalls = 0\<rparr>
   = (TotpValidCurrent,
      \<lparr>lastRollingCounter = 0, lastSavedCounter = 0, eeprom = 0,
       eepromCommits = 1, txLog = [], locked = True, aesCalls = 256, hmacCalls = 1\<rparr>) \<and>
   \<not> ((0xFFFFFF00 :: u32) \<le> 0)"
proof -
  let ?s = "\<lparr>lastRollingCounter = 0xFFFFFF00, lastSavedCounter = 0xFFFFFF00,
      eeprom = 0xFFFFFF00, eepromCommits = 0, txLog = [], locked = True, aesCalls = 0,
      hmacCalls = 0\<rparr>"
  let ?pkt = "\<lparr>carID = CAR_ID, keyfobID = KEYFOB_ID, action = ACTION_UNLOCK,
      rollingCode = generateRollingCode 0xFFFFFFFF, totp = generateTOTP 0\<rparr>"
  have "snd (setupCar True
          \<lparr>lastRollingCounter = 0, lastSavedCounter = 0, eeprom = 0xFFFFFF00,
           eepromCommits = 0, txLog = [], locked = False, aesCalls = 0, hmacCalls = 0\<rparr>) = ?s"
    by (simp add: setupCar_def lockCar_def Let_def)
  then have r: "reachable ?s"
    using reachable.boot
      [of "\<lparr>lastRollingCounter = 0, lastSavedCounter = 0, eeprom = 0xFFFFFF00,
           eepromCommits = 0, txLog = [], locked = False, aesCalls = 0, hmacCalls = 0\<rparr>"]
    by simp
  have first: "\<And>j. j < 255 \<Longrightarrow>
      generateRollingCode (lastRollingCounter ?s + of_nat j) \<noteq> rollingCode ?pkt"
    using window_top by (simp add: noneMatch_iff)
  have "validatePacket 0 ?pkt ?s =
          rollingCodeValid 0 ?pkt (lastRollingCounter ?s + of_nat 255)
            (?s\<lparr>aesCalls := aesCalls ?s + Suc 255\<rparr>)"
    using first by (intro validatePacket_first_match) (simp_all add: ROLLING_WINDOW_def)
  then have "validatePacket 0 ?pkt ?s =
     (TotpValidCurrent,
      \<lparr>lastRollingCounter = 0, lastSavedCounter = 0, eeprom = 0,
       eepromCommits = 1, txLog = [], locked = True, aesCalls = 256, hmacCalls = 1\<rparr>)"
    by (simp add: rollingCodeValid_def Let_def EEPROM_SAVE_INTERVAL_def)
  with r show ?thesis by simp
qed

theorem counter_monotone_below_wrap_witness:
  "lastRollingCounter (snd (setupCar True
      \<lparr>lastRollingCounter = 0, lastSavedCounter = 0, eeprom = 100, eepromCommits = 0,
       txLog = [], locked = False, aesCalls = 0, hmacCalls = 0\<rparr>)) \<le> 0xFFFFFF00 \<and>
   (100 :: u32) \<le> lastRollingCounter (snd (validatePacket 0
      \<lparr>carID = CAR_ID, keyfobID = KEYFOB_ID, action = ACTION_UNLOCK,
       rollingCode = generateRollingCode 105, totp = generateTOTP 0\<rparr>
      \<lparr>lastRollingCounter = 100, lastSavedCounter = 100, eeprom = 100, eepromCommits = 0,
       txLog = [], locked = True, aesCalls = 0, hmacCalls = 0\<rparr>)) \<and>
   lastSavedCounter (snd (validatePacket 0
      \<lparr>carID = CAR_ID, keyfobID = KEYFOB_ID, action = ACTION_UNLOCK,
       rollingCode = generateRollingCode 105, totp = generateTOTP 0\<rparr>
      \<lparr>lastRollingCounter = 100, lastSavedCounter = 100, eeprom = 100, eepromCommits = 0,
       txLog = [], locked = True, aesCalls = 0, hmacCalls = 0\<rparr>))
     \<le> lastRollingCounter (snd (validatePacket 0
      \<lparr>carID = CAR_ID, keyfobID = KEYFOB_ID, action = ACTION_UNLOCK,
       rollingCode = generateRollingCode 105, totp = generateTOTP 0\<rparr>
      \<lparr>lastRollingCounter = 100, lastSavedCounter = 100, eeprom = 100, eepromCommits = 0,
       txLog = [], locked = True, aesCalls = 0, hmacCalls = 0\<rparr>))"
  using counter_monotone_below_wrap
    [of True
        "\<lparr>lastRollingCounter = 0, lastSavedCounter = 0, eeprom = 100, eepromCommits = 0,
          txLog = [], locked = False, aesCalls = 0, hmacCalls = 0\<rparr>"
        "\<lparr>lastRollingCounter = 100, lastSavedCounter = 100, eeprom = 100, eepromCommits = 0,
          txLog = [], locked = True, aesCalls = 0, hmacCalls = 0\<rparr>"
        0
        "\<lparr>carID = CAR_ID, keyfobID = KEYFOB_ID, action = ACTION_UNLOCK,
          rollingCode = generateRollingCode 105, totp = generateTOTP 0\<rparr>"]
  by simp

section \<open>The identity check\<close>

text \<open>
  C9. A packet whose car identity or key-fob identity differs from the configured one is
  answered with \<open>InvalidID\<close> and the state is returned as it was: no counter moves, nothing
  is written or sent, and neither the cipher nor the keyed hash has been called.
\<close>

theorem id_mismatch_rejected_untouched:
  assumes "carID pkt \<noteq> CAR_ID \<or> keyfobID pkt \<noteq> KEYFOB_ID"
  shows "validatePacket ms pkt s = (InvalidID, s)"
  using assms by (simp add: validatePacket_def)

theorem id_mismatch_rejected_untouched_witness:
  "validatePacket 0 \<lparr>carID = 0, keyfobID = KEYFOB_ID, action = 0, rollingCode = 7, totp = 9\<rparr>
     \<lparr>lastRollingCounter = 100, lastSavedCounter = 100, eeprom = 100, eepromCommits = 0,
      txLog = [], locked = True, aesCalls = 0, hmacCalls = 0\<rparr>
   = (InvalidID,
      \<lparr>lastRollingCounter = 100, lastSavedCounter = 100, eeprom = 100, eepromCommits = 0,
       txLog = [], locked = True, aesCalls = 0, hmacCalls = 0\<rparr>)"
  using id_mismatch_rejected_untouched
    [of "\<lparr>carID = 0, keyfobID = KEYFOB_ID, action = 0, rollingCode = 7, totp = 9\<rparr>"]
  by (simp add: CAR_ID_def)

section \<open>Frame length\<close>

text \<open>
  C10 (amended). \<^verbatim>\<open>sizeof(Packet)\<close> is 20 on the target: three padding bytes follow
  \<^verbatim>\<open>action\<close>. For every received frame of at most 64 bytes (the size of \<^verbatim>\<open>rxBuffer\<close>),
  a frame whose length is not 20 is reported as a wrong packet size and the state is
  unchanged; a frame of length 20 is parsed and validated.
\<close>

theorem frame_length_check:
  assumes "length frame \<le> 64"
  shows "sizeof_Packet = 20 \<and>
         (length frame \<noteq> 20 \<longrightarrow> loop ms (Some frame) s = (WrongPacketSize, s)) \<and>
         (length frame = 20 \<longrightarrow>
            loop ms (Some frame) s =
              (let pkt = parsePacket frame; (v, s') = validatePacket ms pkt s
               in if valid v
                  then (PacketValid v,
                        if action pkt = ACTION_UNLOCK then unlockCar s'
                        else if action pkt = ACTION_LOCK then lockCar s' else s')
                  else (PacketInvalid v, s')))"
proof -
  have "unat (of_nat (length frame) :: byte) = length frame"
    using assms by (intro of_nat_inverse) simp_all
  then show ?thesis
    by (simp add: loop_def sizeof_Packet_20 Let_def)
qed

text \<open>
  C10 as stated fails. With the counter at 100, the packet of the paired key fob with the
  rolling code of counter 100 (\<open>0x67F981F5\<close>) and the time code 1000000: its 17 bytes
  without padding are reported as a wrong packet size and dropped, while the 20 bytes with
  the three padding bytes after \<open>action\<close> reach the validator, which rejects the time
  code, advances the counter and sends a resynchronisation message.
\<close>

theorem frame_length_counterexample:
  "loop 0
     (Some [0xBE, 0xBA, 0xFE, 0xCA, 0x78, 0x56, 0x34, 0x12, 0x00,
            0xF5, 0x81, 0xF9, 0x67, 0x40, 0x42, 0x0F, 0x00])
     \<lparr>lastRollingCounter = 100, lastSavedCounter = 100, eeprom = 100, eepromCommits = 0,
      txLog = [], locked = True, aesCalls = 0, hmacCalls = 0\<rparr>
   = (WrongPacketSize,
      \<lparr>lastRollingCounter = 100, lastSavedCounter = 100, eeprom = 100, eepromCommits = 0,
       txLog = [], locked = True, aesCalls = 0, hmacCalls = 0\<rparr>) \<and>
   loop 0
     (Some [0xBE, 0xBA, 0xFE, 0xCA, 0x78, 0x56, 0x34, 0x12, 0x00, 0x00, 0x00, 0x00,
            0xF5, 0x81, 0xF9, 0x67, 0x40, 0x42, 0x0F, 0x00])
     \<lparr>lastRollingCounter = 100, lastSavedCounter = 100, eeprom = 100, eepromCommits = 0,
      txLog = [], locked = True, aesCalls = 0, hmacCalls = 0\<rparr>
   = (PacketInvalid TotpMismatch,
      \<lparr>lastRollingCounter = 101, lastSavedCounter = 100, eeprom = 100, eepromCommits = 0,
       txLog = [0], locked = True, aesCalls = 1, hmacCalls = 2\<rparr>)"
proof -
  let ?s = "\<lparr>lastRollingCounter = 100, lastSavedCounter = 100, eeprom = 100, eepromCommits = 0,
      txLog = [], locked = True, aesCalls = 0, hmacCalls = 0\<rparr>"
  let ?pkt = "\<lparr>carID = 0xCAFEBABE, keyfobID = 0x12345678, action = 0,
      rollingCode = 0x67F981F5, totp = 1000000\<rparr>"
  have p: "parsePacket [0xBE, 0xBA, 0xFE, 0xCA, 0x78, 0x56, 0x34, 0x12, 0x00, 0x00, 0x00, 0x00,
            0xF5, 0x81, 0xF9, 0x67, 0x40, 0x42, 0x0F, 0x00] = ?pkt"
    by (simp add: parsePacket_def Packet_offsets le32_def)
  have t: "generateTOTP e \<noteq> 1000000" for e
    using generateTOTP_bound [of e] by auto
  have "validatePacket 0 ?pkt ?s =
          rollingCodeValid 0 ?pkt (lastRollingCounter ?s + of_nat 0)
            (?s\<lparr>aesCalls := aesCalls ?s + Suc 0\<rparr>)"
    by (intro validatePacket_first_match)
       (simp_all add: ROLLING_WINDOW_def CAR_ID_def KEYFOB_ID_def rolling_codes_window)
  then have v: "validatePacket 0 ?pkt ?s =
     (TotpMismatch,
      \<lparr>lastRollingCounter = 101, lastSavedCounter = 100, eeprom = 100, eepromCommits = 0,
       txLog = [0], locked = True, aesCalls = 1, hmacCalls = 2\<rparr>)"
    using t [of 0] t [of "0 - 1"]
    by (simp add: rollingCodeValid_def Let_def EEPROM_SAVE_INTERVAL_def word_le_nat_alt)
  show ?thesis
    by (simp add: loop_def sizeof_Packet_20 p v)
qed

theorem frame_length_check_witness:
  "loop 0 (Some (replicate 19 0))
     \<lparr>lastRollingCounter = 100, lastSavedCounter = 100, eeprom = 100, eepromCommits = 0,
      txLog = [], locked = True, aesCalls = 0, hmacCalls = 0\<rparr>
   = (WrongPacketSize,
      \<lparr>lastRollingCounter = 100, lastSavedCounter = 100, eeprom = 100, eepromCommits = 0,
       txLog = [], locked = True, aesCalls = 0, hmacCalls = 0\<rparr>) \<and>
   loop 0 (Some (replicate 20 0))
     \<lparr>lastRollingCounter = 100, lastSavedCounter = 100, eeprom = 100, eepromCommits = 0,
      txLog = [], locked = True, aesCalls = 0, hmacCalls = 0\<rparr>
   = (PacketInvalid InvalidID,
      \<lparr>lastRollingCounter = 100, lastSavedCounter = 100, eeprom = 100, eepromCommits = 0,
       txLog = [], locked = True, aesCalls = 0, hmacCalls = 0\<rparr>)"
proof -
  let ?s = "\<lparr>lastRollingCounter = 100, lastSavedCounter = 100, eeprom = 100, eepromCommits = 0,
      txLog = [], locked = True, aesCalls = 0, hmacCalls = 0\<rparr>"
  have c: "carID (parsePacket (replicate 20 0)) = 0"
    by (simp add: parsePacket_def Packet_offsets le32_def eval_nat_numeral)
  then have v: "validatePacket 0 (parsePacket (replicate 20 0)) ?s = (InvalidID, ?s)"
    by (simp add: validatePacket_def CAR_ID_def)
  show ?thesis
    using frame_length_check [of "replicate 19 0" 0 ?s]
      frame_length_check [of "replicate 20 0" 0 ?s]
    by (simp add: v sizeof_Packet_20)
qed

end
